theory Spec2Isabelle
  imports Complex_Main "HOL-Library.Sublist"
begin

section \<open>Data model (types.ts)\<close>

text \<open>
  \<^verbatim>\<open>ScanResult['type']\<close> is the union \<^verbatim>\<open>'url' | 'text' | 'wifi' | 'product' | 'other'\<close>.
\<close>

datatype scan_type = Url | Text | Wifi | Product | Other

text \<open>
  An \<^verbatim>\<open>AnalysisResult\<close> object as it exists at run time. The interface declares
  \<^verbatim>\<open>safety\<close>, \<^verbatim>\<open>summary\<close> and \<^verbatim>\<open>category\<close> as required, but the value produced by
  \<^verbatim>\<open>JSON.parse\<close> is cast without a check, so every property may be missing and
  \<^verbatim>\<open>safety\<close> may hold any string.
\<close>

record source_ref =
  title :: string
  uri :: string

record AnalysisResult =
  safety :: "string option"
  summary :: "string option"
  category :: "string option"
  productName :: "string option"
  productDetails :: "string option"
  sources :: "source_ref list option"

record ScanResult =
  data :: string
  format :: string
  timestamp :: int
  type :: scan_type
  analysis :: "AnalysisResult option"

section \<open>Classifier (Scanner.tsx, determineType)\<close>

text \<open>
  \<^verbatim>\<open>String.prototype.startsWith\<close> is the list prefix test, and \<^verbatim>\<open>Array.prototype.includes\<close>
  on strings is list membership.
\<close>

definition startsWith :: "string \<Rightarrow> string \<Rightarrow> bool" where
  "startsWith s p = prefix p s"

definition product_formats :: "string list" where
  "product_formats = [''EAN_8'', ''EAN_13'', ''UPC_A'', ''UPC_E'', ''CODE_39'', ''CODE_128'']"

definition determineType :: "string \<Rightarrow> string \<Rightarrow> scan_type" where
  "determineType d f =
     (if startsWith d ''http'' then Url
      else if startsWith d ''WIFI:'' then Wifi
      else if f \<in> set product_formats then Product
      else Text)"

text \<open>
  The classifier as the specification words it, for comparison with \<open>determineType\<close>:
  rule 1 asks for an HTTP(S) scheme prefix, the scheme name with its separator, that is
  \<^verbatim>\<open>http://\<close> or \<^verbatim>\<open>https://\<close>; the other rules are as in the code.
\<close>

definition scheme_prefix :: "string \<Rightarrow> bool" where
  "scheme_prefix d = (startsWith d ''http://'' \<or> startsWith d ''https://'')"

definition classify :: "string \<Rightarrow> string \<Rightarrow> scan_type" where
  "classify d f =
     (if scheme_prefix d then Url
      else if startsWith d ''WIFI:'' then Wifi
      else if f \<in> set product_formats then Product
      else Text)"

section \<open>Symbologies (Scanner.tsx)\<close>

text \<open>
  \<^verbatim>\<open>BarcodeFormat\<close> is the enumeration of the decoding library; the source uses these
  seventeen members.
\<close>

datatype BarcodeFormat =
    AZTEC | CODABAR | CODE_39 | CODE_93 | CODE_128 | DATA_MATRIX | EAN_8 | EAN_13
  | ITF | MAXICODE | PDF_417 | QR_CODE | RSS_14 | RSS_EXPANDED | UPC_A | UPC_E
  | UPC_EAN_EXTENSION

definition formatMap :: "(BarcodeFormat \<times> string) list" where
  "formatMap =
     [(AZTEC, ''AZTEC''), (CODABAR, ''CODABAR''), (CODE_39, ''CODE_39''),
      (CODE_93, ''CODE_93''), (CODE_128, ''CODE_128''), (DATA_MATRIX, ''DATA_MATRIX''),
      (EAN_8, ''EAN_8''), (EAN_13, ''EAN_13''), (ITF, ''ITF''), (MAXICODE, ''MAXICODE''),
      (PDF_417, ''PDF_417''), (QR_CODE, ''QR_CODE''), (RSS_14, ''RSS_14''),
      (RSS_EXPANDED, ''RSS_EXPANDED''), (UPC_A, ''UPC_A''), (UPC_E, ''UPC_E''),
      (UPC_EAN_EXTENSION, ''UPC_EAN_EXTENSION'')]"

text \<open>\<^verbatim>\<open>formatMap[format] || 'UNKNOWN'\<close>: every name in the table is a non-empty string.\<close>

definition getFormatName :: "BarcodeFormat \<Rightarrow> string" where
  "getFormatName f = (case map_of formatMap f of Some n \<Rightarrow> n | None \<Rightarrow> ''UNKNOWN'')"

definition formats_2D :: "BarcodeFormat list" where
  "formats_2D = [QR_CODE, AZTEC, DATA_MATRIX, MAXICODE, PDF_417]"

definition is2DFormat :: "BarcodeFormat \<Rightarrow> bool" where
  "is2DFormat f = (f \<in> set formats_2D)"

datatype ScanMode = Auto | Qr | Barcode

text \<open>
  The list \<^verbatim>\<open>formats\<close> that the mode effect pushes and stores under
  \<^verbatim>\<open>DecodeHintType.POSSIBLE_FORMATS\<close>, in push order.
\<close>

definition possible_formats :: "ScanMode \<Rightarrow> BarcodeFormat list" where
  "possible_formats m =
     (if m = Qr then [QR_CODE, AZTEC, DATA_MATRIX, PDF_417]
      else if m = Barcode then
        [CODE_128, CODE_39, CODE_93, EAN_13, EAN_8, UPC_A, UPC_E, ITF, CODABAR, RSS_14]
      else
        [QR_CODE, AZTEC, DATA_MATRIX, CODE_128, CODE_39, EAN_13, EAN_8, UPC_A, UPC_E,
         PDF_417])"

section \<open>Overlay renderer (Scanner.tsx, drawResultOverlay)\<close>

text \<open>
  A result point carries two JavaScript numbers (the properties \<^verbatim>\<open>x\<close> and \<^verbatim>\<open>y\<close>), which
  the renderer only copies into drawing calls.
\<close>

record ResultPoint =
  pt_x :: real
  pt_y :: real

text \<open>The calls made on the 2D context, in the order they are made.\<close>

datatype canvas_cmd =
    ClearRect real real nat nat
  | BeginPath
  | SetLineWidth nat
  | SetStrokeStyle string
  | SetFillStyle string
  | MoveTo real real
  | LineTo real real
  | ClosePath
  | SetShadowColor string
  | SetShadowBlur nat
  | Stroke
  | Fill

record canvas =
  width :: nat
  height :: nat
  has_context :: bool

record video =
  videoWidth :: nat
  videoHeight :: nat

definition match_size :: "canvas \<Rightarrow> video \<Rightarrow> canvas" where
  "match_size c v =
     (if width c \<noteq> videoWidth v \<or> height c \<noteq> videoHeight v
      then c\<lparr>width := videoWidth v, height := videoHeight v\<rparr> else c)"

text \<open>
  The loop \<^verbatim>\<open>for (let i = 1; i < resultPoints.length; i++) ctx.lineTo(...)\<close>, returning
  the calls it makes from index \<open>i\<close> on.
\<close>

function lineTo_loop :: "ResultPoint list \<Rightarrow> nat \<Rightarrow> canvas_cmd list" where
  "lineTo_loop ps i =
     (if i < length ps then LineTo (pt_x (ps ! i)) (pt_y (ps ! i)) # lineTo_loop ps (i + 1)
      else [])"
  by pat_completeness auto
termination
  by (relation "measure (\<lambda>(ps, i). length ps - i)") auto

declare lineTo_loop.simps [simp del]

definition path_2D :: "ResultPoint list \<Rightarrow> canvas_cmd list" where
  "path_2D ps =
     [SetStrokeStyle ''#10b981'', SetFillStyle ''rgba(16, 185, 129, 0.2)''] @
     (if length ps > 0
      then MoveTo (pt_x (ps ! 0)) (pt_y (ps ! 0)) # lineTo_loop ps 1 @ [ClosePath]
      else [])"

definition path_1D :: "ResultPoint list \<Rightarrow> canvas_cmd list" where
  "path_1D ps =
     [SetStrokeStyle ''#3b82f6'', SetFillStyle ''rgba(59, 130, 246, 0.2)''] @
     (if length ps \<ge> 2
      then [MoveTo (pt_x (ps ! 0)) (pt_y (ps ! 0)),
            LineTo (pt_x (ps ! (length ps - 1))) (pt_y (ps ! (length ps - 1))),
            SetShadowColor ''#3b82f6'', SetShadowBlur 10]
      else [])"

text \<open>
  The renderer returns nothing when the canvas, the video element or the 2D context is
  missing (\<open>None\<close>); otherwise the resized canvas and the calls made on its context.
\<close>

definition drawResultOverlay ::
  "canvas option \<Rightarrow> video option \<Rightarrow> ResultPoint list \<Rightarrow> BarcodeFormat
     \<Rightarrow> (canvas \<times> canvas_cmd list) option" where
  "drawResultOverlay cref vref resultPoints fmt =
     (case (cref, vref) of
        (Some c, Some v) \<Rightarrow>
          if \<not> has_context c then None
          else
            let c' = match_size c v;
                is2D = is2DFormat fmt
            in Some (c',
                 [ClearRect 0 0 (width c') (height c'), BeginPath, SetLineWidth 4] @
                 (if is2D then path_2D resultPoints else path_1D resultPoints) @
                 [Stroke] @ (if is2D then [Fill] else []) @ [SetShadowBlur 0])
      | _ \<Rightarrow> None)"

section \<open>Decode callback (Scanner.tsx, handleDecode)\<close>

text \<open>What the decoder hands to the callback: text, symbology and geometry.\<close>

record decode_result =
  getText :: string
  getBarcodeFormat :: BarcodeFormat
  getResultPoints :: "ResultPoint list"

text \<open>
  The object the 150 ms timer passes to \<^verbatim>\<open>onScan\<close>; \<open>now\<close> is \<^verbatim>\<open>Date.now()\<close> when the
  timer fires.
\<close>

definition make_ScanResult :: "decode_result \<Rightarrow> int \<Rightarrow> ScanResult" where
  "make_ScanResult r now =
     (let formatStr = getFormatName (getBarcodeFormat r) in
      \<lparr>data = getText r, format = formatStr, timestamp = now,
       type = determineType (getText r) formatStr, analysis = None\<rparr>)"

text \<open>
  The callback receives a result or nothing (a frame without a code) and reads the
  \<^verbatim>\<open>isScanningRef\<close> flag. It returns the overlay drawn and the decode results for which a
  timer was started; both are empty when the event is dropped.
\<close>

record decode_effects =
  overlay :: "(canvas \<times> canvas_cmd list) option"
  timers :: "decode_result list"

definition handleDecode ::
  "bool \<Rightarrow> canvas option \<Rightarrow> video option \<Rightarrow> decode_result option \<Rightarrow> decode_effects" where
  "handleDecode isScanning cref vref result =
     (case result of
        Some r \<Rightarrow>
          if isScanning then
            \<lparr>overlay = drawResultOverlay cref vref (getResultPoints r) (getBarcodeFormat r),
             timers = [r]\<rparr>
          else \<lparr>overlay = None, timers = []\<rparr>
      | None \<Rightarrow> \<lparr>overlay = None, timers = []\<rparr>)"

section \<open>Application state (App.tsx)\<close>

datatype view_name = ScanView | HistoryView

record app_state =
  scannedResult :: "ScanResult option"
  isDrawerOpen :: bool
  history :: "ScanResult list"
  view :: view_name

definition init_app :: app_state where
  "init_app = \<lparr>scannedResult = None, isDrawerOpen = False, history = [], view = ScanView\<rparr>"

text \<open>
  \<^verbatim>\<open>handleScan\<close> is a callback memoised on \<^verbatim>\<open>isDrawerOpen\<close>: the flag it tests is the one
  of the render that made the closure (the first argument here), while its three state
  updates act on the state at the time of the call. \<^verbatim>\<open>[result, ...prev].slice(0, 50)\<close> is
  \<open>take 50 (result # prev)\<close>.
\<close>

definition handleScan :: "bool \<Rightarrow> ScanResult \<Rightarrow> app_state \<Rightarrow> app_state" where
  "handleScan captured result s =
     (if captured then s
      else s\<lparr>scannedResult := Some result, isDrawerOpen := True,
             history := take 50 (result # history s)\<rparr>)"

definition closeDrawer :: "app_state \<Rightarrow> app_state" where
  "closeDrawer s = s\<lparr>isDrawerOpen := False, scannedResult := None\<rparr>"

definition handleAnalysisComplete :: "int \<Rightarrow> AnalysisResult \<Rightarrow> app_state \<Rightarrow> app_state" where
  "handleAnalysisComplete ts res s =
     s\<lparr>history :=
         map (\<lambda>item. if timestamp item = ts then item\<lparr>analysis := Some res\<rparr> else item)
           (history s)\<rparr>"

text \<open>The click handler of a history row, and the header button that switches the view.\<close>

definition history_onClick :: "ScanResult \<Rightarrow> app_state \<Rightarrow> app_state" where
  "history_onClick item s = s\<lparr>scannedResult := Some item, isDrawerOpen := True\<rparr>"

definition header_onClick :: "app_state \<Rightarrow> app_state" where
  "header_onClick s = s\<lparr>view := (if view s = ScanView then HistoryView else ScanView)\<rparr>"

text \<open>The \<^verbatim>\<open>isScanning\<close> property handed to the scanner.\<close>

definition isScanning :: "app_state \<Rightarrow> bool" where
  "isScanning s = (\<not> isDrawerOpen s \<and> view s = ScanView)"

section \<open>Result drawer (ResultDrawer.tsx, the enrichment effect)\<close>

record drawer_state =
  drawer_analysis :: "AnalysisResult option"
  loading :: bool

definition init_drawer :: drawer_state where
  "init_drawer = \<lparr>drawer_analysis = None, loading = False\<rparr>"

text \<open>
  One call of \<^verbatim>\<open>analyzeQRContent\<close>: the arguments passed, and the \<^verbatim>\<open>result\<close> the
  continuation has captured.
\<close>

record enrichment_call =
  call_content :: string
  call_format :: string
  call_origin :: ScanResult

text \<open>
  The body of the effect for the current \<^verbatim>\<open>result\<close> property: the new drawer state and
  the enrichment calls it starts.
\<close>

definition ResultDrawer_effect ::
  "ScanResult option \<Rightarrow> drawer_state \<Rightarrow> drawer_state \<times> enrichment_call list" where
  "ResultDrawer_effect result d =
     (case result of
        None \<Rightarrow> (d, [])
      | Some r \<Rightarrow>
          (case analysis r of
             Some a \<Rightarrow> (d\<lparr>drawer_analysis := Some a, loading := False\<rparr>, [])
           | None \<Rightarrow>
               (d\<lparr>loading := True, drawer_analysis := None\<rparr>,
                [\<lparr>call_content = data r, call_format = format r, call_origin = r\<rparr>])))"

section \<open>The application as a transition system\<close>

text \<open>
  A scanner instance keeps two refs. \<^verbatim>\<open>isScanningRef\<close> holds a copy of the \<^verbatim>\<open>isScanning\<close>
  property. \<^verbatim>\<open>onScanRef\<close> holds a \<^verbatim>\<open>handleScan\<close> closure; a closure differs from another
  only in the \<^verbatim>\<open>isDrawerOpen\<close> it has captured, so the ref is modelled by that flag. Both
  are initialised from the properties when the instance is mounted, and written again
  by the two effects of the instance.
\<close>

record scanner_refs =
  isScanningRef :: bool
  onScanRef :: bool

definition refs_of_props :: "app_state \<Rightarrow> scanner_refs" where
  "refs_of_props a = \<lparr>isScanningRef = isScanning a, onScanRef = isDrawerOpen a\<rparr>"

text \<open>
  A timer started by the decode callback: the decode result it will hand on, and the
  scanner instance whose \<^verbatim>\<open>onScanRef\<close> it will read when it fires.
\<close>

record scan_timer =
  timer_result :: decode_result
  timer_scanner :: nat

text \<open>
  The whole of the mutable state: the application state; the drawer state; the
  enrichment calls started and not yet resolved; the position in the history of the very
  object that \<^verbatim>\<open>scannedResult\<close> holds, when that object is in the history (every object
  is in the history at most once, since entries are fresh scan results or fresh copies
  made by the merge); the refs of every scanner instance mounted so far, the last one
  being the mounted instance while the scan view is shown; and the timers started and
  not yet fired.
\<close>

record system =
  app :: app_state
  drawer :: drawer_state
  pending :: "enrichment_call list"
  shown :: "nat option"
  scanners :: "scanner_refs list"
  waiting :: "scan_timer list"

definition init_system :: system where
  "init_system =
     \<lparr>app = init_app, drawer = init_drawer, pending = [], shown = None,
      scanners = [refs_of_props init_app], waiting = []\<rparr>"

definition mounted :: "system \<Rightarrow> nat option" where
  "mounted sys =
     (if view (app sys) = ScanView \<and> scanners sys \<noteq> [] then Some (length (scanners sys) - 1)
      else None)"

text \<open>
  A render in which the \<^verbatim>\<open>result\<close> property of the drawer is another object than before
  (or changes between an object and \<^verbatim>\<open>null\<close>): the effect of the drawer runs. Its other
  dependency, \<^verbatim>\<open>onAnalysisComplete\<close>, is a callback without dependencies and never
  changes.
\<close>

definition show_result :: "system \<Rightarrow> app_state \<Rightarrow> nat option \<Rightarrow> system" where
  "show_result sys a' pos =
     (let (d', calls) = ResultDrawer_effect (scannedResult a') (drawer sys)
      in sys\<lparr>app := a', drawer := d', pending := pending sys @ calls, shown := pos\<rparr>)"

definition remove_nth :: "nat \<Rightarrow> 'a list \<Rightarrow> 'a list" where
  "remove_nth k xs = take k xs @ drop (Suc k) xs"

text \<open>
  The \<open>k\<close>-th waiting timer fires at instant \<open>now\<close>: it makes the scan result and calls
  the closure that the ref of its scanner holds at that moment. \<open>timer_surfaces\<close> says
  that the timer exists and that this closure was made with the drawer closed. A scan
  result that is accepted is a new object, put at the head of the history.
\<close>

definition timer_surfaces :: "system \<Rightarrow> nat \<Rightarrow> bool" where
  "timer_surfaces sys k =
     (k < length (waiting sys) \<and>
      timer_scanner (waiting sys ! k) < length (scanners sys) \<and>
      \<not> onScanRef (scanners sys ! timer_scanner (waiting sys ! k)))"

definition fire_timer :: "nat \<Rightarrow> int \<Rightarrow> system \<Rightarrow> system" where
  "fire_timer k now sys =
     (if k < length (waiting sys) \<and> timer_scanner (waiting sys ! k) < length (scanners sys)
      then
        let t = waiting sys ! k;
            captured = onScanRef (scanners sys ! timer_scanner t);
            result = make_ScanResult (timer_result t) now;
            sys' = sys\<lparr>waiting := remove_nth k (waiting sys)\<rparr>
        in if captured then sys'\<lparr>app := handleScan captured result (app sys')\<rparr>
           else show_result sys' (handleScan captured result (app sys')) (Some 0)
      else sys)"

text \<open>
  The continuation of the \<open>k\<close>-th pending call, run when the call resolves with \<open>res\<close>:
  it updates the drawer and reports to \<^verbatim>\<open>handleAnalysisComplete\<close> under the captured
  timestamp. The merge replaces the entries with that timestamp by copies, so the object
  shown is no longer in the history if it was one of them.
\<close>

definition resolve_call :: "nat \<Rightarrow> AnalysisResult \<Rightarrow> system \<Rightarrow> system" where
  "resolve_call k res sys =
     (if k < length (pending sys) then
        let ts = timestamp (call_origin (pending sys ! k))
        in sys\<lparr>pending := remove_nth k (pending sys),
               drawer := (drawer sys)\<lparr>drawer_analysis := Some res, loading := False\<rparr>,
               app := handleAnalysisComplete ts res (app sys),
               shown :=
                 (case shown sys of
                    None \<Rightarrow> None
                  | Some j \<Rightarrow>
                      if j < length (history (app sys)) \<and> timestamp (history (app sys) ! j) = ts
                      then None else Some j)\<rparr>
      else sys)"

text \<open>
  The events, each followed at once by the render it causes:
  \<^item> the decoder calls \<^verbatim>\<open>handleDecode\<close> of the mounted scanner (with the canvas and the
    video element as they are then), which reads \<^verbatim>\<open>isScanningRef\<close> and may start a timer;
  \<^item> a waiting timer fires;
  \<^item> the two effects of the mounted scanner run and copy the current properties into
    its refs. React runs them some time after the render that changed the properties;
    here they may run at any later point, so that every order in which the code can run
    them is among the runs, with others. For an instance that has been unmounted they
    never run again, and its timers are not cleared;
  \<^item> the drawer is closed;
  \<^item> the \<open>i\<close>-th row of the history view is clicked (the rows are rendered only in that
    view). If the row holds the very object already shown, no state changes;
  \<^item> the header button switches the view, which unmounts the scanner or mounts a new
    instance;
  \<^item> the \<open>k\<close>-th pending enrichment call resolves with a result.
\<close>

datatype event =
    Decode "canvas option" "video option" "decode_result option"
  | TimerFire nat int
  | RunEffects
  | CloseDrawer
  | HistoryClick nat
  | HeaderClick
  | Resolve nat AnalysisResult

fun step :: "system \<Rightarrow> event \<Rightarrow> system" where
  "step sys (Decode cref vref ev) =
     (case mounted sys of
        None \<Rightarrow> sys
      | Some k \<Rightarrow>
          sys\<lparr>waiting := waiting sys @
            map (\<lambda>r. \<lparr>timer_result = r, timer_scanner = k\<rparr>)
              (timers (handleDecode (isScanningRef (scanners sys ! k)) cref vref ev))\<rparr>)"
| "step sys (TimerFire k now) = fire_timer k now sys"
| "step sys RunEffects =
     (case mounted sys of
        None \<Rightarrow> sys
      | Some k \<Rightarrow> sys\<lparr>scanners := (scanners sys)[k := refs_of_props (app sys)]\<rparr>)"
| "step sys CloseDrawer = show_result sys (closeDrawer (app sys)) None"
| "step sys (HistoryClick i) =
     (if view (app sys) = HistoryView \<and> i < length (history (app sys)) then
        if shown sys = Some i
        then sys\<lparr>app := history_onClick (history (app sys) ! i) (app sys)\<rparr>
        else show_result sys (history_onClick (history (app sys) ! i) (app sys)) (Some i)
      else sys)"
| "step sys HeaderClick =
     (let a' = header_onClick (app sys)
      in if view a' = ScanView
         then sys\<lparr>app := a', scanners := scanners sys @ [refs_of_props a']\<rparr>
         else sys\<lparr>app := a'\<rparr>)"
| "step sys (Resolve k res) = resolve_call k res sys"

definition run :: "system \<Rightarrow> event list \<Rightarrow> system" where
  "run sys es = foldl step sys es"

text \<open>The instants at which the timers of an event sequence fire, in order.\<close>

fun scan_times :: "event list \<Rightarrow> int list" where
  "scan_times [] = []"
| "scan_times (TimerFire k now # es) = now # scan_times es"
| "scan_times (_ # es) = scan_times es"

text \<open>The number of pending enrichment calls started for a given timestamp.\<close>

definition calls_for :: "int \<Rightarrow> enrichment_call list \<Rightarrow> nat" where
  "calls_for ts cs = length (filter (\<lambda>c. timestamp (call_origin c) = ts) cs)"

text \<open>
  Newest first: along the list the timestamps never increase.
\<close>

definition newest_first :: "ScanResult list \<Rightarrow> bool" where
  "newest_first h = sorted_wrt (\<lambda>a b. timestamp b \<le> timestamp a) h"

text \<open>
  The drawer is open exactly when there is an active result, and while it is closed no
  history entry is shown.
\<close>

definition drawer_inv :: "system \<Rightarrow> bool" where
  "drawer_inv sys =
     (isDrawerOpen (app sys) = (scannedResult (app sys) \<noteq> None) \<and>
      (isDrawerOpen (app sys) \<or> shown sys = None))"

section \<open>Enrichment service (services/geminiService.ts)\<close>

text \<open>A thrown value, or the reason of a rejected promise.\<close>

datatype js_error = Error string

text \<open>
  The parts of the remote answer that the service reads: \<^verbatim>\<open>response.text\<close> and
  \<^verbatim>\<open>response.candidates?.[0]?.groundingMetadata?.groundingChunks\<close>, each possibly
  undefined.
\<close>

record web_chunk =
  web_title :: "string option"
  web_uri :: "string option"

record grounding_chunk =
  web :: "web_chunk option"

record response =
  response_text :: "string option"
  groundingChunks :: "grounding_chunk list option"

datatype GoogleGenAI = GoogleGenAI string

text \<open>
  What the service depends on and does not define: the configured key
  (\<^verbatim>\<open>process.env.API_KEY\<close>), the client constructor, the remote call, and the built-ins
  \<^verbatim>\<open>JSON.parse\<close> and \<^verbatim>\<open>String.prototype.trim\<close>. The constructor, the call and the parser
  may throw.
\<close>

record environment =
  API_KEY :: "string option"
  new_GoogleGenAI :: "string \<Rightarrow> js_error + GoogleGenAI"
  generateContent :: "GoogleGenAI \<Rightarrow> string \<Rightarrow> js_error + response"
  JSON_parse :: "string \<Rightarrow> js_error + AnalysisResult"
  String_trim :: "string \<Rightarrow> string"

text \<open>
  The module variable \<^verbatim>\<open>genAIInstance\<close>, and the prompts sent to the remote service so
  far (one entry per network request).
\<close>

record service_state =
  genAIInstance :: "GoogleGenAI option"
  requests :: "string list"

text \<open>\<^verbatim>\<open>apiKey || ''\<close> and \<^verbatim>\<open>format || 'Unknown'\<close>: the default replaces undefined and the empty string.\<close>

definition or_default :: "string option \<Rightarrow> string \<Rightarrow> string" where
  "or_default v d = (case v of None \<Rightarrow> d | Some t \<Rightarrow> if t = [] then d else t)"

definition getAI :: "environment \<Rightarrow> service_state \<Rightarrow> (js_error + GoogleGenAI) \<times> service_state" where
  "getAI env st =
     (case genAIInstance st of
        Some ai \<Rightarrow> (Inr ai, st)
      | None \<Rightarrow>
          (case new_GoogleGenAI env (or_default (API_KEY env) []) of
             Inl e \<Rightarrow> (Inl e, st)
           | Inr ai \<Rightarrow> (Inr ai, st\<lparr>genAIInstance := Some ai\<rparr>)))"

text \<open>\<^verbatim>\<open>!apiKey || apiKey === 'undefined' || apiKey === ''\<close>\<close>

definition key_missing :: "string option \<Rightarrow> bool" where
  "key_missing k = (case k of None \<Rightarrow> True | Some t \<Rightarrow> t = [] \<or> t = ''undefined'' \<or> t = [])"

definition nl :: string where
  "nl = [CHR 0x0A]"

definition dq :: string where
  "dq = [CHR 0x22]"

definition build_prompt :: "string \<Rightarrow> string option \<Rightarrow> string" where
  "build_prompt content fmt = concat
     [nl, ''      You are an advanced scanner assistant using Google Search.'', nl,
      ''      '', nl,
      ''      TASK:'', nl,
      ''      1. Search Google for this data: '', dq, content, dq, '' (Format: '',
        or_default fmt ''Unknown'', '').'', nl,
      ''      2. If it is a PRODUCT (UPC, EAN, ISBN, etc.), find the EXACT product name, brand, and key details (price, specs).'', nl,
      ''      3. If it is a URL/Website, verify if it is safe or malicious.'', nl,
      ''      4. If it is plain text, explain what it refers to.'', nl,
      nl,
      ''      OUTPUT:'', nl,
      ''      Return a JSON object (do not use markdown formatting) with the following structure:'', nl,
      ''      {'', nl,
      ''        '', dq, ''safety'', dq, '': '', dq, ''safe'', dq, '' | '', dq, ''caution'', dq,
        '' | '', dq, ''danger'', dq, '' | '', dq, ''unknown'', dq, '','', nl,
      ''        '', dq, ''category'', dq, '': '', dq,
        ''String (e.g. Grocery, Book, Electronics, Website)'', dq, '','', nl,
      ''        '', dq, ''summary'', dq, '': '', dq,
        ''String (A brief summary of what was found)'', dq, '','', nl,
      ''        '', dq, ''productName'', dq, '': '', dq,
        ''String (The exact product name if found)'', dq, '','', nl,
      ''        '', dq, ''productDetails'', dq, '': '', dq,
        ''String (Extra details like price, weight, or author)'', dq, nl,
      ''      }'', nl,
      ''    '']"

text \<open>
  \<^verbatim>\<open>s.replace(/p/g, '')\<close> for a literal pattern: every match is removed, scanning from the
  left, matches not overlapping.
\<close>

function remove_all :: "string \<Rightarrow> string \<Rightarrow> string" where
  "remove_all p [] = []"
| "remove_all p (c # cs) =
     (if p \<noteq> [] \<and> prefix p (c # cs) then remove_all p (drop (length p) (c # cs))
      else c # remove_all p cs)"
  by pat_completeness auto
termination
  by (relation "measure (\<lambda>(p, s). length s)") auto

text \<open>
  \<^verbatim>\<open>text.replace(/```json/g, '').replace(/```/g, '').trim()\<close>, with the built-in \<^verbatim>\<open>trim\<close>
  of the environment.
\<close>

definition sanitize :: "environment \<Rightarrow> string \<Rightarrow> string" where
  "sanitize env t = String_trim env (remove_all ''```'' (remove_all ''```json'' t))"

definition config_error_result :: AnalysisResult where
  "config_error_result =
     \<lparr>safety = Some ''unknown'', summary =
        Some ''API Key is missing. Please add VITE_API_KEY to your .env file or GitHub Secrets.'',
      category = Some ''Configuration Error'', productName = None, productDetails = None,
      sources = None\<rparr>"

definition failure_result :: AnalysisResult where
  "failure_result =
     \<lparr>safety = Some ''unknown'', summary =
        Some ''Could not perform online search. Check connection or API quota.'',
      category = Some ''Unknown'', productName = None, productDetails = None,
      sources = None\<rparr>"

text \<open>
  \<^verbatim>\<open>response.text?.substring(0, 150) + '...' || 'No description available.'\<close>: the sum binds
  tighter than \<^verbatim>\<open>||\<close>, and an undefined text is printed as \<^verbatim>\<open>undefined\<close>.
\<close>

definition fallback_summary :: "string option \<Rightarrow> string" where
  "fallback_summary t =
     (let s = (case t of None \<Rightarrow> ''undefined'' | Some u \<Rightarrow> take 150 u) @ ''...''
      in if s = [] then ''No description available.'' else s)"

definition fallback_result :: "response \<Rightarrow> AnalysisResult" where
  "fallback_result r =
     \<lparr>safety = Some ''unknown'', summary = Some (fallback_summary (response_text r)),
      category = Some ''Search Result'', productName = Some ''Detected Item'',
      productDetails = None, sources = None\<rparr>"

text \<open>
  The sources: one per chunk with a \<^verbatim>\<open>web\<close> part whose \<^verbatim>\<open>uri\<close> is defined and not empty;
  \<^verbatim>\<open>[]\<close> when there are no grounding chunks.
\<close>

definition chunk_source :: "grounding_chunk \<Rightarrow> source_ref option" where
  "chunk_source c =
     (case web c of
        None \<Rightarrow> None
      | Some w \<Rightarrow>
          (case web_uri w of
             None \<Rightarrow> None
           | Some u \<Rightarrow>
               if u = [] then None
               else Some \<lparr>title = or_default (web_title w) ''Web Source'', uri = u\<rparr>))"

definition extract_sources :: "grounding_chunk list option \<Rightarrow> source_ref list" where
  "extract_sources gc = (case gc of None \<Rightarrow> [] | Some cs \<Rightarrow> List.map_filter chunk_source cs)"

text \<open>
  The body of the \<^verbatim>\<open>try\<close> block: \<open>Inl\<close> is a throw that leaves the block, \<open>Inr\<close> a
  \<^verbatim>\<open>return\<close>. The inner \<^verbatim>\<open>try\<close> around \<^verbatim>\<open>JSON.parse\<close> is the \<open>case\<close> on its result.
\<close>

definition analyze_try ::
  "environment \<Rightarrow> string \<Rightarrow> string option \<Rightarrow> service_state
     \<Rightarrow> (js_error + AnalysisResult) \<times> service_state" where
  "analyze_try env content fmt st =
     (if key_missing (API_KEY env) then (Inr config_error_result, st)
      else
        case getAI env st of
          (Inl e, st1) \<Rightarrow> (Inl e, st1)
        | (Inr ai, st1) \<Rightarrow>
            let prompt = build_prompt content fmt;
                st2 = st1\<lparr>requests := requests st1 @ [prompt]\<rparr>
            in (case generateContent env ai prompt of
                  Inl e \<Rightarrow> (Inl e, st2)
                | Inr resp \<Rightarrow>
                    let txt = sanitize env (or_default (response_text resp) ''{}'');
                        result = (case JSON_parse env txt of
                                    Inr r \<Rightarrow> r
                                  | Inl e \<Rightarrow> fallback_result resp);
                        srcs = extract_sources (groundingChunks resp)
                    in (Inr (result\<lparr>sources := Some srcs\<rparr>), st2)))"

text \<open>
  The function itself: the \<^verbatim>\<open>catch\<close> block returns the failure result for whatever the
  \<^verbatim>\<open>try\<close> block has thrown. \<open>Inl\<close> in the result is a rejected promise.
\<close>

definition analyzeQRContent ::
  "environment \<Rightarrow> string \<Rightarrow> string option \<Rightarrow> service_state
     \<Rightarrow> (js_error + AnalysisResult) \<times> service_state" where
  "analyzeQRContent env content fmt st =
     (case analyze_try env content fmt st of
        (Inl e, st') \<Rightarrow> (Inr failure_result, st')
      | (Inr r, st') \<Rightarrow> (Inr r, st'))"

text \<open>
  A degraded result, in the words of the specification: the safety is \<^verbatim>\<open>unknown\<close> and the
  summary is present and not empty.
\<close>

definition degraded :: "AnalysisResult \<Rightarrow> bool" where
  "degraded r =
     (safety r = Some ''unknown'' \<and> (case summary r of None \<Rightarrow> False | Some t \<Rightarrow> t \<noteq> []))"

text \<open>
  An object that meets the \<^verbatim>\<open>AnalysisResult\<close> interface of \<^verbatim>\<open>types.ts\<close>: the safety is one
  of the four levels, and the summary and the category are present.
\<close>

definition is_AnalysisResult :: "AnalysisResult \<Rightarrow> bool" where
  "is_AnalysisResult r =
     (safety r \<in> set [Some ''safe'', Some ''caution'', Some ''unknown'', Some ''danger''] \<and>
      summary r \<noteq> None \<and> category r \<noteq> None)"

section \<open>Sample values\<close>

text \<open>
  Decode results for a link and for a product code, the scan results made from them at
  three instants, and an enrichment result.
\<close>

definition code_a :: decode_result where
  "code_a =
     \<lparr>getText = ''https://example.com'', getBarcodeFormat = QR_CODE, getResultPoints = []\<rparr>"

definition code_c :: decode_result where
  "code_c = \<lparr>getText = ''012345678905'', getBarcodeFormat = UPC_A, getResultPoints = []\<rparr>"

definition scan_a :: ScanResult where
  "scan_a = make_ScanResult code_a 1"

definition scan_b :: ScanResult where
  "scan_b = make_ScanResult code_a 2"

definition scan_c :: ScanResult where
  "scan_c = make_ScanResult code_c 3"

definition analysis_ok :: AnalysisResult where
  "analysis_ok =
     \<lparr>safety = Some ''safe'', summary = Some ''Example site'', category = Some ''Website'',
      productName = None, productDetails = None, sources = Some []\<rparr>"

text \<open>
  Two environments with a key: in one the remote call fails; in the other it answers
  without text. The built-ins are fixed as far as these runs need them: the only text
  that reaches them is \<^verbatim>\<open>{}\<close>, which \<^verbatim>\<open>trim\<close> returns as it is and \<^verbatim>\<open>JSON.parse\<close> turns
  into an object without properties.
\<close>

definition env_offline :: environment where
  "env_offline =
     \<lparr>API_KEY = Some ''key'', new_GoogleGenAI = (\<lambda>k. Inr (GoogleGenAI k)),
      generateContent = (\<lambda>ai p. Inl (Error ''Failed to fetch'')),
      JSON_parse =
        (\<lambda>t. if t = ''{}''
             then Inr \<lparr>safety = None, summary = None, category = None, productName = None,
                       productDetails = None, sources = None\<rparr>
             else Inl (Error ''SyntaxError'')),
      String_trim = (\<lambda>t. t)\<rparr>"

definition env_no_text :: environment where
  "env_no_text =
     env_offline\<lparr>generateContent :=
       (\<lambda>ai p. Inr \<lparr>response_text = None, groundingChunks = None\<rparr>)\<rparr>"

definition fresh_service :: service_state where
  "fresh_service = \<lparr>genAIInstance = None, requests = []\<rparr>"

section \<open>Classifier properties\<close>

lemma startsWith_take: "startsWith s p = (take (length p) s = p)"
proof
  assume "startsWith s p"
  then obtain zs where "s = p @ zs" by (auto simp: startsWith_def prefix_def)
  then show "take (length p) s = p" by simp
next
  assume "take (length p) s = p"
  then have "prefix p s" using take_is_prefix [of "length p" s] by simp
  then show "startsWith s p" by (simp add: startsWith_def)
qed

text \<open>
  C1, as stated, fails. The payload \<^verbatim>\<open>httpd-2.4.57\<close> read from a Code 128 symbol does not
  begin with an HTTP(S) scheme prefix and does not begin with \<^verbatim>\<open>WIFI:\<close>, so the rules of the
  claim make it a product. The code makes it a url.
\<close>

theorem scheme_prefix_counterexample:
  "determineType ''httpd-2.4.57'' ''CODE_128'' = Url \<and>
   classify ''httpd-2.4.57'' ''CODE_128'' = Product"
  by (simp add: determineType_def classify_def scheme_prefix_def startsWith_def
      product_formats_def)

text \<open>
  C1, amended. The classifier applies its rules in order and the first that matches
  decides. The first rule compares the first four characters of the payload with
  \<^verbatim>\<open>http\<close>, in lower case, and does not look at what follows: a payload whose first four
  characters are \<^verbatim>\<open>http\<close> is a \<open>Url\<close>; otherwise one whose first five characters are
  \<^verbatim>\<open>WIFI:\<close> is \<open>Wifi\<close>; otherwise one whose format is among \<^verbatim>\<open>EAN_8\<close>, \<^verbatim>\<open>EAN_13\<close>,
  \<^verbatim>\<open>UPC_A\<close>, \<^verbatim>\<open>UPC_E\<close>, \<^verbatim>\<open>CODE_39\<close>, \<^verbatim>\<open>CODE_128\<close> is \<open>Product\<close>; every other one is
  \<open>Text\<close>. The four conditions exclude each other and cover every input, so each input
  has exactly one tag. A payload that begins with \<^verbatim>\<open>http://\<close> or \<^verbatim>\<open>https://\<close> is in the
  first case; so is any other text that begins with \<^verbatim>\<open>http\<close>, and a scheme written in
  upper case is not.
\<close>

theorem determineType_rules:
  "(take 4 d = ''http'' \<longrightarrow> determineType d f = Url) \<and>
   (take 7 d = ''http://'' \<or> take 8 d = ''https://'' \<longrightarrow> determineType d f = Url) \<and>
   (take 4 d \<noteq> ''http'' \<and> take 5 d = ''WIFI:'' \<longrightarrow> determineType d f = Wifi) \<and>
   (take 4 d \<noteq> ''http'' \<and> take 5 d \<noteq> ''WIFI:'' \<and>
      f \<in> {''EAN_8'', ''EAN_13'', ''UPC_A'', ''UPC_E'', ''CODE_39'', ''CODE_128''}
      \<longrightarrow> determineType d f = Product) \<and>
   (take 4 d \<noteq> ''http'' \<and> take 5 d \<noteq> ''WIFI:'' \<and>
      f \<notin> {''EAN_8'', ''EAN_13'', ''UPC_A'', ''UPC_E'', ''CODE_39'', ''CODE_128''}
      \<longrightarrow> determineType d f = Text)"
proof -
  have h: "startsWith d ''http'' = (take 4 d = ''http'')"
    using startsWith_take [of d "''http''"] by (simp add: eval_nat_numeral)
  have w: "startsWith d ''WIFI:'' = (take 5 d = ''WIFI:'')"
    using startsWith_take [of d "''WIFI:''"] by (simp add: eval_nat_numeral)
  have m: "(f \<in> set product_formats) =
      (f \<in> {''EAN_8'', ''EAN_13'', ''UPC_A'', ''UPC_E'', ''CODE_39'', ''CODE_128''})"
    by (simp add: product_formats_def)
  have s: "take 7 d = ''http://'' \<or> take 8 d = ''https://'' \<longrightarrow> take 4 d = ''http''"
  proof
    assume "take 7 d = ''http://'' \<or> take 8 d = ''https://''"
    then have "prefix ''http://'' d \<or> prefix ''https://'' d"
      using startsWith_take [of d "''http://''"] startsWith_take [of d "''https://''"]
      by (simp add: eval_nat_numeral startsWith_def)
    moreover have "prefix ''http'' ''http://''" and "prefix ''http'' ''https://''"
      by simp_all
    ultimately have "prefix ''http'' d"
      using prefix_order.trans by blast
    then show "take 4 d = ''http''"
      using h by (simp add: startsWith_def)
  qed
  show ?thesis using s unfolding determineType_def h w m by simp
qed

theorem determineType_rules_witness:
  "determineType ''https://example.com'' ''QR_CODE'' = Url \<and>
   determineType ''WIFI:T:WPA;S:Home;P:pass;;'' ''QR_CODE'' = Wifi \<and>
   determineType ''012345678905'' ''UPC_A'' = Product \<and>
   determineType ''hello'' ''QR_CODE'' = Text \<and>
   determineType ''httpd-2.4.57'' ''CODE_128'' = Url \<and>
   determineType ''HTTPS://EXAMPLE.COM'' ''EAN_13'' = Product"
  using determineType_rules [of "''https://example.com''" "''QR_CODE''"]
    determineType_rules [of "''WIFI:T:WPA;S:Home;P:pass;;''" "''QR_CODE''"]
    determineType_rules [of "''012345678905''" "''UPC_A''"]
    determineType_rules [of "''hello''" "''QR_CODE''"]
    determineType_rules [of "''httpd-2.4.57''" "''CODE_128''"]
    determineType_rules [of "''HTTPS://EXAMPLE.COM''" "''EAN_13''"]
  by simp

section \<open>Symbology sets\<close>

text \<open>
  C8. The formats handed to the decoder have exactly the stated membership in each
  mode, and no format is listed twice: the QR mode has QR, Aztec, DataMatrix and PDF417;
  the barcode mode has Code128, Code39, Code93, EAN13, EAN8, UPCA, UPCE, ITF, Codabar
  and RSS14; the automatic mode has QR, Aztec, DataMatrix, Code128, Code39, EAN13, EAN8,
  UPCA, UPCE and PDF417.
\<close>

theorem possible_formats_membership:
  "set (possible_formats Qr) = {QR_CODE, AZTEC, DATA_MATRIX, PDF_417} \<and>
   set (possible_formats Barcode) =
     {CODE_128, CODE_39, CODE_93, EAN_13, EAN_8, UPC_A, UPC_E, ITF, CODABAR, RSS_14} \<and>
   set (possible_formats Auto) =
     {QR_CODE, AZTEC, DATA_MATRIX, CODE_128, CODE_39, EAN_13, EAN_8, UPC_A, UPC_E, PDF_417} \<and>
   distinct (possible_formats Qr) \<and> distinct (possible_formats Barcode) \<and>
   distinct (possible_formats Auto)"
  by (simp add: possible_formats_def)

section \<open>History\<close>

lemma app_show_result [simp]: "app (show_result sys a' pos) = a'"
  by (simp add: show_result_def split: prod.splits)

lemma run_snoc: "run sys (es @ [e]) = step (run sys es) e"
  by (simp add: run_def)

lemma run_Nil: "run sys [] = sys"
  by (simp add: run_def)

lemma history_handleScan:
  "history (handleScan captured r s) =
     (if captured then history s else take 50 (r # history s))"
  by (simp add: handleScan_def)

lemma history_closeDrawer [simp]: "history (closeDrawer s) = history s"
  by (simp add: closeDrawer_def)

lemma history_history_onClick [simp]: "history (history_onClick item s) = history s"
  by (simp add: history_onClick_def)

lemma history_header_onClick [simp]: "history (header_onClick s) = history s"
  by (simp add: header_onClick_def)

lemma history_handleAnalysisComplete:
  "history (handleAnalysisComplete ts res s) =
     map (\<lambda>item. if timestamp item = ts then item\<lparr>analysis := Some res\<rparr> else item) (history s)"
  by (simp add: handleAnalysisComplete_def)

lemma timestamps_handleAnalysisComplete [simp]:
  "map timestamp (history (handleAnalysisComplete ts res s)) = map timestamp (history s)"
  by (simp add: history_handleAnalysisComplete o_def cong: map_cong)

lemma history_resolve_call:
  "map timestamp (history (app (resolve_call k res sys))) = map timestamp (history (app sys))"
  by (simp add: resolve_call_def Let_def)

lemma history_fire_timer:
  "history (app (fire_timer k now sys)) =
     (if timer_surfaces sys k
      then make_ScanResult (timer_result (waiting sys ! k)) now # take 49 (history (app sys))
      else history (app sys))"
  by (simp add: fire_timer_def timer_surfaces_def Let_def history_handleScan)

lemma timestamp_make_ScanResult [simp]: "timestamp (make_ScanResult r now) = now"
  by (simp add: make_ScanResult_def Let_def)

lemma history_step_other:
  "history (app (step sys (Decode cref vref ev))) = history (app sys)"
  "history (app (step sys RunEffects)) = history (app sys)"
  "history (app (step sys CloseDrawer)) = history (app sys)"
  "history (app (step sys (HistoryClick i))) = history (app sys)"
  "history (app (step sys HeaderClick)) = history (app sys)"
  by (simp_all add: Let_def split: option.splits)

lemma timestamps_step:
  "map timestamp (history (app (step sys e))) =
     (case e of
        TimerFire k now \<Rightarrow>
          if timer_surfaces sys k then take 50 (now # map timestamp (history (app sys)))
          else map timestamp (history (app sys))
      | _ \<Rightarrow> map timestamp (history (app sys)))"
  by (cases e)
     (simp_all add: history_fire_timer history_resolve_call take_map Let_def
        split: option.splits)

lemma length_history_step:
  "length (history (app sys)) \<le> 50 \<Longrightarrow> length (history (app (step sys e))) \<le> 50"
  using arg_cong [OF timestamps_step [of sys e], of length]
  by (cases e) (simp_all split: if_splits)

lemma length_history_run: "length (history (app (run init_system es))) \<le> 50"
proof (induction es rule: rev_induct)
  case Nil
  show ?case by (simp add: run_Nil init_system_def init_app_def)
next
  case (snoc e es)
  then show ?case by (simp add: run_snoc length_history_step)
qed

lemma scan_times_snoc:
  "scan_times (es @ [e]) = scan_times es @ (case e of TimerFire k now \<Rightarrow> [now] | _ \<Rightarrow> [])"
  by (induction es rule: scan_times.induct) (simp_all split: event.splits)

lemma timestamps_step_subset:
  "set (map timestamp (history (app (step sys e)))) \<subseteq>
     set (map timestamp (history (app sys))) \<union>
     set (case e of TimerFire k now \<Rightarrow> [now] | _ \<Rightarrow> [])"
  unfolding timestamps_step
  by (cases e) (auto dest: in_set_takeD)

lemma timestamps_run_subset:
  "set (map timestamp (history (app (run init_system es)))) \<subseteq> set (scan_times es)"
proof (induction es rule: rev_induct)
  case Nil
  show ?case by (simp add: run_Nil init_system_def init_app_def)
next
  case (snoc e es)
  have "set (map timestamp (history (app (run init_system (es @ [e]))))) \<subseteq>
      set (map timestamp (history (app (run init_system es)))) \<union>
      set (case e of TimerFire k now \<Rightarrow> [now] | _ \<Rightarrow> [])"
    unfolding run_snoc by (rule timestamps_step_subset)
  also have "\<dots> \<subseteq> set (scan_times es) \<union> set (case e of TimerFire k now \<Rightarrow> [now] | _ \<Rightarrow> [])"
    using snoc.IH by blast
  also have "\<dots> = set (scan_times (es @ [e]))"
    by (simp add: scan_times_snoc)
  finally show ?case .
qed

lemma newest_first_timestamps:
  "newest_first h = sorted_wrt (\<lambda>a b. b \<le> a) (map timestamp h)"
  by (simp add: newest_first_def sorted_wrt_map)

lemma sorted_wrt_take: "sorted_wrt P xs \<Longrightarrow> sorted_wrt P (take n xs)"
  by (metis append_take_drop_id sorted_wrt_append)

lemma newest_first_run:
  "sorted (scan_times es) \<Longrightarrow> newest_first (history (app (run init_system es)))"
proof (induction es rule: rev_induct)
  case Nil
  show ?case by (simp add: run_Nil init_system_def init_app_def newest_first_def)
next
  case (snoc e es)
  have srt: "sorted (scan_times es)"
    using snoc.prems by (simp add: scan_times_snoc sorted_append)
  then have ih: "sorted_wrt (\<lambda>a b. b \<le> a) (map timestamp (history (app (run init_system es))))"
    using snoc.IH by (simp add: newest_first_timestamps)
  show ?case
  proof (cases e)
    case (TimerFire k now)
    have le: "\<forall>t \<in> set (scan_times es). t \<le> now"
      using snoc.prems TimerFire by (simp add: scan_times_snoc sorted_append)
    then have "\<forall>t \<in> set (map timestamp (history (app (run init_system es)))). t \<le> now"
      using timestamps_run_subset [of es] by blast
    then have "sorted_wrt (\<lambda>a b. b \<le> a)
        (now # map timestamp (history (app (run init_system es))))"
      using ih by simp
    then have "sorted_wrt (\<lambda>a b. b \<le> a)
        (take 50 (now # map timestamp (history (app (run init_system es)))))"
      by (rule sorted_wrt_take)
    with ih TimerFire show ?thesis
      unfolding newest_first_timestamps run_snoc timestamps_step by simp
  next
    case (Decode cref vref ev)
    with ih show ?thesis unfolding newest_first_timestamps run_snoc timestamps_step by simp
  next
    case RunEffects
    with ih show ?thesis unfolding newest_first_timestamps run_snoc timestamps_step by simp
  next
    case CloseDrawer
    with ih show ?thesis unfolding newest_first_timestamps run_snoc timestamps_step by simp
  next
    case (HistoryClick i)
    with ih show ?thesis unfolding newest_first_timestamps run_snoc timestamps_step by simp
  next
    case HeaderClick
    with ih show ?thesis unfolding newest_first_timestamps run_snoc timestamps_step by simp
  next
    case (Resolve k res)
    with ih show ?thesis unfolding newest_first_timestamps run_snoc timestamps_step by simp
  qed
qed

lemma scan_a_simps:
  "scan_a = \<lparr>data = ''https://example.com'', format = ''QR_CODE'', timestamp = 1, type = Url,
     analysis = None\<rparr>"
  by (simp add: scan_a_def code_a_def make_ScanResult_def getFormatName_def formatMap_def
      determineType_def startsWith_def)

lemma scan_b_simps:
  "scan_b = \<lparr>data = ''https://example.com'', format = ''QR_CODE'', timestamp = 2, type = Url,
     analysis = None\<rparr>"
  by (simp add: scan_b_def code_a_def make_ScanResult_def getFormatName_def formatMap_def
      determineType_def startsWith_def)

lemma scan_c_simps:
  "scan_c = \<lparr>data = ''012345678905'', format = ''UPC_A'', timestamp = 3, type = Product,
     analysis = None\<rparr>"
  by (simp add: scan_c_def code_c_def make_ScanResult_def getFormatName_def formatMap_def
      determineType_def startsWith_def product_formats_def)

lemma make_code_a: "make_ScanResult code_a 1 = scan_a"
  by (simp add: scan_a_def)

lemma make_code_c: "make_ScanResult code_c 3 = scan_c"
  by (simp add: scan_c_def)

lemmas system_defs =
  init_system_def init_app_def init_drawer_def refs_of_props_def isScanning_def mounted_def
  handleDecode_def fire_timer_def remove_nth_def handleScan_def show_result_def
  ResultDrawer_effect_def closeDrawer_def history_onClick_def header_onClick_def
  resolve_call_def handleAnalysisComplete_def timer_surfaces_def Let_def

text \<open>A first scan: decoded, then surfaced by its timer at instant 1.\<close>

lemma run_first_scan:
  "run init_system [Decode None None (Some code_a), TimerFire 0 1] =
     \<lparr>app = \<lparr>scannedResult = Some scan_a, isDrawerOpen = True, history = [scan_a],
              view = ScanView\<rparr>,
      drawer = \<lparr>drawer_analysis = None, loading = True\<rparr>,
      pending = [\<lparr>call_content = ''https://example.com'', call_format = ''QR_CODE'',
                  call_origin = scan_a\<rparr>],
      shown = Some 0,
      scanners = [\<lparr>isScanningRef = True, onScanRef = False\<rparr>],
      waiting = []\<rparr>"
  by (simp add: run_def system_defs make_code_a) (simp add: scan_a_simps)

lemma run_append: "run sys (es @ fs) = run (run sys es) fs"
  by (simp add: run_def)

text \<open>
  After the first scan the effects of the scanner run, the drawer is closed, the effects
  run again, and a product code is decoded and surfaced at instant 3.
\<close>

lemma run_two_scans:
  "run init_system
     [Decode None None (Some code_a), TimerFire 0 1, RunEffects, CloseDrawer, RunEffects,
      Decode None None (Some code_c), TimerFire 0 3] =
     \<lparr>app = \<lparr>scannedResult = Some scan_c, isDrawerOpen = True, history = [scan_c, scan_a],
              view = ScanView\<rparr>,
      drawer = \<lparr>drawer_analysis = None, loading = True\<rparr>,
      pending = [\<lparr>call_content = ''https://example.com'', call_format = ''QR_CODE'',
                  call_origin = scan_a\<rparr>,
                 \<lparr>call_content = ''012345678905'', call_format = ''UPC_A'',
                  call_origin = scan_c\<rparr>],
      shown = Some 0,
      scanners = [\<lparr>isScanningRef = True, onScanRef = False\<rparr>],
      waiting = []\<rparr>"
proof -
  have split: "run init_system
     [Decode None None (Some code_a), TimerFire 0 1, RunEffects, CloseDrawer, RunEffects,
      Decode None None (Some code_c), TimerFire 0 3] =
     run (run init_system [Decode None None (Some code_a), TimerFire 0 1])
       [RunEffects, CloseDrawer, RunEffects, Decode None None (Some code_c), TimerFire 0 3]"
    using run_append [of init_system "[Decode None None (Some code_a), TimerFire 0 1]"
        "[RunEffects, CloseDrawer, RunEffects, Decode None None (Some code_c), TimerFire 0 3]"]
    by simp
  show ?thesis
    unfolding split run_first_scan
    by (simp add: run_def system_defs make_code_c) (simp add: scan_c_simps)
qed

text \<open>
  Two codes are decoded one after the other; the timer of the first fires and the effects
  of the scanner run, so that the timer of the second will find a closure made with the
  drawer open.
\<close>

lemma run_second_timer_waiting:
  "run init_system
     [Decode None None (Some code_a), Decode None None (Some code_c), TimerFire 0 1,
      RunEffects] =
     \<lparr>app = \<lparr>scannedResult = Some scan_a, isDrawerOpen = True, history = [scan_a],
              view = ScanView\<rparr>,
      drawer = \<lparr>drawer_analysis = None, loading = True\<rparr>,
      pending = [\<lparr>call_content = ''https://example.com'', call_format = ''QR_CODE'',
                  call_origin = scan_a\<rparr>],
      shown = Some 0,
      scanners = [\<lparr>isScanningRef = False, onScanRef = True\<rparr>],
      waiting = [\<lparr>timer_result = code_c, timer_scanner = 0\<rparr>]\<rparr>"
  by (simp add: run_def system_defs make_code_a) (simp add: scan_a_simps)

text \<open>
  C5. In every state reached from the initial one the history holds at most 50 entries.
  When the timers fire at instants that never decrease, the history is ordered newest
  first. A scan that is surfaced (its timer finds a closure made with the drawer closed)
  is put at the head, once, in front of the 49 most recent earlier entries, so on
  overflow the oldest entry is the one that goes; a timer that does not surface its scan
  inserts nothing, and neither does opening an entry from the history view.
\<close>

theorem history_bounded_newest_first:
  "length (history (app (run init_system es))) \<le> 50 \<and>
   (sorted (scan_times es) \<longrightarrow> newest_first (history (app (run init_system es)))) \<and>
   (timer_surfaces sys k \<longrightarrow>
      history (app (step sys (TimerFire k now))) =
        make_ScanResult (timer_result (waiting sys ! k)) now # take 49 (history (app sys))) \<and>
   (\<not> timer_surfaces sys k \<longrightarrow>
      history (app (step sys (TimerFire k now))) = history (app sys)) \<and>
   history (app (step sys (HistoryClick i))) = history (app sys)"
proof -
  have "history (app (step sys (HistoryClick i))) = history (app sys)"
    by simp
  moreover have "timer_surfaces sys k \<longrightarrow>
      history (app (step sys (TimerFire k now))) =
        make_ScanResult (timer_result (waiting sys ! k)) now # take 49 (history (app sys))"
    by (simp add: history_fire_timer)
  moreover have "\<not> timer_surfaces sys k \<longrightarrow>
      history (app (step sys (TimerFire k now))) = history (app sys)"
    by (simp add: history_fire_timer)
  ultimately show ?thesis
    using length_history_run [of es] newest_first_run [of es] by blast
qed

theorem history_bounded_newest_first_witness:
  "sorted (scan_times
     [Decode None None (Some code_a), TimerFire 0 1, RunEffects, CloseDrawer, RunEffects,
      Decode None None (Some code_c), TimerFire 0 3]) \<and>
   newest_first (history (app (run init_system
     [Decode None None (Some code_a), TimerFire 0 1, RunEffects, CloseDrawer, RunEffects,
      Decode None None (Some code_c), TimerFire 0 3]))) \<and>
   history (app (run init_system
     [Decode None None (Some code_a), TimerFire 0 1, RunEffects, CloseDrawer, RunEffects,
      Decode None None (Some code_c), TimerFire 0 3])) = [scan_c, scan_a] \<and>
   timer_surfaces (run init_system [Decode None None (Some code_a)]) 0 \<and>
   history (app (step (run init_system [Decode None None (Some code_a)]) (TimerFire 0 1))) =
     [scan_a] \<and>
   \<not> timer_surfaces (run init_system
     [Decode None None (Some code_a), Decode None None (Some code_c), TimerFire 0 1,
      RunEffects]) 0 \<and>
   history (app (step (run init_system
     [Decode None None (Some code_a), Decode None None (Some code_c), TimerFire 0 1,
      RunEffects]) (TimerFire 0 3))) = [scan_a]"
  using history_bounded_newest_first
      [of "[Decode None None (Some code_a), TimerFire 0 1, RunEffects, CloseDrawer, RunEffects,
            Decode None None (Some code_c), TimerFire 0 3]"
          "run init_system [Decode None None (Some code_a)]" 0 1 0]
    history_bounded_newest_first
      [of "[]" "run init_system
         [Decode None None (Some code_a), Decode None None (Some code_c), TimerFire 0 1,
          RunEffects]" 0 3 0]
  unfolding run_two_scans run_second_timer_waiting
  by (simp add: run_def system_defs make_code_a)

section \<open>Merging an enrichment into the history\<close>

lemma filter_merge:
  "filter (\<lambda>item. timestamp item = ts)
     (map (\<lambda>item. if timestamp item = ts then item\<lparr>analysis := Some res\<rparr> else item) xs) =
   map (\<lambda>item. item\<lparr>analysis := Some res\<rparr>) (filter (\<lambda>item. timestamp item = ts) xs)"
  by (induction xs) simp_all

text \<open>
  C6. Merging a completed enrichment under timestamp \<open>ts\<close> keeps the length and the order
  of the history. The entry at a position whose timestamp is \<open>ts\<close> becomes the same entry
  with its analysis set: payload, format, timestamp and type stay as they were. An entry
  whose timestamp differs is left as it is, whatever its payload. When no entry has the
  timestamp, the application state is the same as before.
\<close>

theorem merge_by_timestamp_frame:
  "length (history (handleAnalysisComplete ts res s)) = length (history s) \<and>
   (i < length (history s) \<and> timestamp (history s ! i) = ts \<longrightarrow>
      history (handleAnalysisComplete ts res s) ! i = (history s ! i)\<lparr>analysis := Some res\<rparr> \<and>
      data (history (handleAnalysisComplete ts res s) ! i) = data (history s ! i) \<and>
      format (history (handleAnalysisComplete ts res s) ! i) = format (history s ! i) \<and>
      timestamp (history (handleAnalysisComplete ts res s) ! i) = timestamp (history s ! i) \<and>
      type (history (handleAnalysisComplete ts res s) ! i) = type (history s ! i)) \<and>
   (i < length (history s) \<and> timestamp (history s ! i) \<noteq> ts \<longrightarrow>
      history (handleAnalysisComplete ts res s) ! i = history s ! i) \<and>
   ((\<forall>item \<in> set (history s). timestamp item \<noteq> ts) \<longrightarrow>
      handleAnalysisComplete ts res s = s)"
proof -
  have "(\<forall>item \<in> set (history s). timestamp item \<noteq> ts) \<longrightarrow>
      map (\<lambda>item. if timestamp item = ts then item\<lparr>analysis := Some res\<rparr> else item) (history s)
        = history s"
    by (simp add: map_idI)
  then have "(\<forall>item \<in> set (history s). timestamp item \<noteq> ts) \<longrightarrow>
      handleAnalysisComplete ts res s = s"
    by (simp add: handleAnalysisComplete_def)
  then show ?thesis
    by (simp add: history_handleAnalysisComplete)
qed

theorem merge_by_timestamp_frame_witness:
  "timestamp (history (init_app\<lparr>history := [scan_b, scan_a]\<rparr>) ! 1) = 1 \<and>
   timestamp (history (init_app\<lparr>history := [scan_b, scan_a]\<rparr>) ! 0) \<noteq> 1 \<and>
   data (history (init_app\<lparr>history := [scan_b, scan_a]\<rparr>) ! 0) =
     data (history (init_app\<lparr>history := [scan_b, scan_a]\<rparr>) ! 1) \<and>
   history (handleAnalysisComplete 1 analysis_ok (init_app\<lparr>history := [scan_b, scan_a]\<rparr>)) =
     [scan_b, scan_a\<lparr>analysis := Some analysis_ok\<rparr>] \<and>
   timestamp scan_b \<noteq> 7 \<and> timestamp scan_a \<noteq> 7 \<and>
   handleAnalysisComplete 7 analysis_ok (init_app\<lparr>history := [scan_b, scan_a]\<rparr>) =
     init_app\<lparr>history := [scan_b, scan_a]\<rparr>"
  using merge_by_timestamp_frame [of 1 analysis_ok "init_app\<lparr>history := [scan_b, scan_a]\<rparr>" 1]
    merge_by_timestamp_frame [of 1 analysis_ok "init_app\<lparr>history := [scan_b, scan_a]\<rparr>" 0]
    merge_by_timestamp_frame [of 7 analysis_ok "init_app\<lparr>history := [scan_b, scan_a]\<rparr>" 0]
  by (simp add: scan_a_simps scan_b_simps init_app_def handleAnalysisComplete_def)

text \<open>
  C10. The merge goes over the whole list: after it, every entry with the timestamp
  carries the new analysis, and there are as many of them as before. In particular two
  entries at different positions that share the timestamp both receive it.
\<close>

theorem merge_sets_every_match:
  "(\<forall>item \<in> set (history (handleAnalysisComplete ts res s)).
      timestamp item = ts \<longrightarrow> analysis item = Some res) \<and>
   length (filter (\<lambda>item. timestamp item = ts) (history (handleAnalysisComplete ts res s))) =
     length (filter (\<lambda>item. timestamp item = ts) (history s)) \<and>
   (i < length (history s) \<and> j < length (history s) \<and> i \<noteq> j \<and>
      timestamp (history s ! i) = ts \<and> timestamp (history s ! j) = ts \<longrightarrow>
      analysis (history (handleAnalysisComplete ts res s) ! i) = Some res \<and>
      analysis (history (handleAnalysisComplete ts res s) ! j) = Some res)"
proof -
  have a: "\<forall>item \<in> set (history (handleAnalysisComplete ts res s)).
      timestamp item = ts \<longrightarrow> analysis item = Some res"
  proof
    fix item
    assume "item \<in> set (history (handleAnalysisComplete ts res s))"
    then obtain old where "old \<in> set (history s)"
      and "item = (if timestamp old = ts then old\<lparr>analysis := Some res\<rparr> else old)"
      unfolding history_handleAnalysisComplete by auto
    then show "timestamp item = ts \<longrightarrow> analysis item = Some res"
      by (cases "timestamp old = ts") simp_all
  qed
  have b: "length (filter (\<lambda>item. timestamp item = ts) (history (handleAnalysisComplete ts res s))) =
     length (filter (\<lambda>item. timestamp item = ts) (history s))"
    unfolding history_handleAnalysisComplete filter_merge by simp
  have c: "i < length (history s) \<and> j < length (history s) \<and> i \<noteq> j \<and>
      timestamp (history s ! i) = ts \<and> timestamp (history s ! j) = ts \<longrightarrow>
      analysis (history (handleAnalysisComplete ts res s) ! i) = Some res \<and>
      analysis (history (handleAnalysisComplete ts res s) ! j) = Some res"
    by (simp add: history_handleAnalysisComplete)
  from a b c show ?thesis by blast
qed

theorem merge_sets_every_match_witness:
  "timestamp (history (init_app\<lparr>history := [scan_a, scan_b, scan_a]\<rparr>) ! 0) = 1 \<and>
   timestamp (history (init_app\<lparr>history := [scan_a, scan_b, scan_a]\<rparr>) ! 2) = 1 \<and>
   history (handleAnalysisComplete 1 analysis_ok (init_app\<lparr>history := [scan_a, scan_b, scan_a]\<rparr>)) =
     [scan_a\<lparr>analysis := Some analysis_ok\<rparr>, scan_b, scan_a\<lparr>analysis := Some analysis_ok\<rparr>] \<and>
   analysis (history (handleAnalysisComplete 1 analysis_ok
      (init_app\<lparr>history := [scan_a, scan_b, scan_a]\<rparr>)) ! 0) = Some analysis_ok \<and>
   analysis (history (handleAnalysisComplete 1 analysis_ok
      (init_app\<lparr>history := [scan_a, scan_b, scan_a]\<rparr>)) ! 2) = Some analysis_ok"
  using merge_sets_every_match
    [of 1 analysis_ok "init_app\<lparr>history := [scan_a, scan_b, scan_a]\<rparr>" 0 2]
  by (simp add: scan_a_simps scan_b_simps init_app_def handleAnalysisComplete_def)

section \<open>Enrichment service\<close>

lemma key_missing_iff:
  "key_missing k = (k = None \<or> k = Some [] \<or> k = Some ''undefined'')"
  by (auto simp: key_missing_def split: option.splits)

lemma degraded_config: "degraded config_error_result"
  by (simp add: degraded_def config_error_result_def)

lemma degraded_failure: "degraded failure_result"
  by (simp add: degraded_def failure_result_def)

lemma fallback_summary_nonempty: "fallback_summary t \<noteq> []"
  by (simp add: fallback_summary_def Let_def)

lemma degraded_fallback: "degraded ((fallback_result resp)\<lparr>sources := Some srcs\<rparr>)"
  by (simp add: degraded_def fallback_result_def fallback_summary_nonempty)

lemma analyzeQRContent_Inr: "\<not> isl (fst (analyzeQRContent env content fmt st))"
  by (simp add: analyzeQRContent_def split: prod.splits sum.splits)

lemma analyzeQRContent_of_throw:
  "fst (analyze_try env content fmt st) = Inl e \<Longrightarrow>
   fst (analyzeQRContent env content fmt st) = Inr failure_result"
  by (cases "analyze_try env content fmt st") (simp add: analyzeQRContent_def)

lemma analyze_try_no_key:
  "key_missing (API_KEY env) \<Longrightarrow> analyze_try env content fmt st = (Inr config_error_result, st)"
  by (simp add: analyze_try_def)

lemma analyze_try_client_throws:
  "\<not> key_missing (API_KEY env) \<Longrightarrow> getAI env st = (Inl e, st') \<Longrightarrow>
   analyze_try env content fmt st = (Inl e, st')"
  by (simp add: analyze_try_def)


lemma analyze_try_parse_throws:
  "\<not> key_missing (API_KEY env) \<Longrightarrow> getAI env st = (Inr ai, st') \<Longrightarrow>
   generateContent env ai (build_prompt content fmt) = Inr resp \<Longrightarrow>
   JSON_parse env (sanitize env (or_default (response_text resp) ''{}'')) = Inl e \<Longrightarrow>
   analyze_try env content fmt st =
     (Inr ((fallback_result resp)\<lparr>sources := Some (extract_sources (groundingChunks resp))\<rparr>),
      st'\<lparr>requests := requests st' @ [build_prompt content fmt]\<rparr>)"
  by (simp add: analyze_try_def Let_def)

lemma analyze_try_parsed:
  "\<not> key_missing (API_KEY env) \<Longrightarrow> getAI env st = (Inr ai, st') \<Longrightarrow>
   generateContent env ai (build_prompt content fmt) = Inr resp \<Longrightarrow>
   JSON_parse env (sanitize env (or_default (response_text resp) ''{}'')) = Inr r \<Longrightarrow>
   analyze_try env content fmt st =
     (Inr (r\<lparr>sources := Some (extract_sources (groundingChunks resp))\<rparr>),
      st'\<lparr>requests := requests st' @ [build_prompt content fmt]\<rparr>)"
  by (simp add: analyze_try_def Let_def)

text \<open>
  The enrichment function on its paths of failure. The promise is never rejected. With
  the key missing the result is the configuration error and the service state is the
  one before the call. What the client constructor or the remote call throws is answered
  by the failure result, and a text that does not parse by the fallback result; all
  three are degraded results.
\<close>

lemma analyzeQRContent_failure_paths:
  "\<not> isl (fst (analyzeQRContent env content fmt st)) \<and>
   (key_missing (API_KEY env) \<longrightarrow>
      analyzeQRContent env content fmt st = (Inr config_error_result, st) \<and>
      category config_error_result = Some ''Configuration Error'' \<and>
      degraded config_error_result) \<and>
   (fst (analyze_try env content fmt st) = Inl e \<longrightarrow>
      fst (analyzeQRContent env content fmt st) = Inr failure_result \<and>
      degraded failure_result) \<and>
   (\<not> key_missing (API_KEY env) \<and> getAI env st = (Inr ai, st') \<and>
    generateContent env ai (build_prompt content fmt) = Inr resp \<and>
    JSON_parse env (sanitize env (or_default (response_text resp) ''{}'')) = Inl e \<longrightarrow>
      fst (analyzeQRContent env content fmt st) =
        Inr ((fallback_result resp)\<lparr>sources := Some (extract_sources (groundingChunks resp))\<rparr>) \<and>
      degraded ((fallback_result resp)\<lparr>sources := Some (extract_sources (groundingChunks resp))\<rparr>))"
proof -
  have 1: "key_missing (API_KEY env) \<longrightarrow>
      analyzeQRContent env content fmt st = (Inr config_error_result, st) \<and>
      category config_error_result = Some ''Configuration Error'' \<and>
      degraded config_error_result"
    by (simp add: analyzeQRContent_def analyze_try_no_key degraded_config)
       (simp add: config_error_result_def)
  have 2: "fst (analyze_try env content fmt st) = Inl e \<longrightarrow>
      fst (analyzeQRContent env content fmt st) = Inr failure_result \<and>
      degraded failure_result"
    by (simp add: analyzeQRContent_of_throw degraded_failure)
  have 3: "\<not> key_missing (API_KEY env) \<and> getAI env st = (Inr ai, st') \<and>
    generateContent env ai (build_prompt content fmt) = Inr resp \<and>
    JSON_parse env (sanitize env (or_default (response_text resp) ''{}'')) = Inl e \<longrightarrow>
      fst (analyzeQRContent env content fmt st) =
        Inr ((fallback_result resp)\<lparr>sources := Some (extract_sources (groundingChunks resp))\<rparr>) \<and>
      degraded ((fallback_result resp)\<lparr>sources := Some (extract_sources (groundingChunks resp))\<rparr>)"
    by (simp add: analyzeQRContent_def analyze_try_parse_throws degraded_fallback)
  from analyzeQRContent_Inr [of env content fmt st] 1 2 3 show ?thesis by blast
qed


lemma getAI_no_text:
  "getAI env_no_text fresh_service =
     (Inr (GoogleGenAI ''key''), fresh_service\<lparr>genAIInstance := Some (GoogleGenAI ''key'')\<rparr>)"
  by (simp add: getAI_def env_no_text_def env_offline_def fresh_service_def or_default_def)



text \<open>
  C4 fails in the code. When the remote answer carries no text, the service parses the
  text \<^verbatim>\<open>{}\<close> in its place and returns the parsed object with the sources added: an
  object without safety, summary and category, which is not an \<^verbatim>\<open>AnalysisResult\<close>. The
  paths of failure give a complete degraded result; this path does not.
\<close>

theorem analyzeQRContent_result_without_fields:
  "fst (analyzeQRContent env_no_text ''012345678905'' (Some ''UPC_A'') fresh_service) =
     Inr \<lparr>safety = None, summary = None, category = None, productName = None,
          productDetails = None, sources = Some []\<rparr> \<and>
   \<not> is_AnalysisResult
       \<lparr>safety = None, summary = None, category = None, productName = None,
        productDetails = None, sources = Some []\<rparr>"
proof -
  have k: "\<not> key_missing (API_KEY env_no_text)"
    by (simp add: key_missing_def env_no_text_def env_offline_def)
  have g: "generateContent env_no_text (GoogleGenAI ''key'')
      (build_prompt ''012345678905'' (Some ''UPC_A'')) =
      Inr \<lparr>response_text = None, groundingChunks = None\<rparr>"
    by (simp add: env_no_text_def)
  have s: "sanitize env_no_text
      (or_default (response_text \<lparr>response_text = None, groundingChunks = None\<rparr>) ''{}'') = ''{}''"
    by (simp add: sanitize_def or_default_def env_no_text_def env_offline_def)
  have p: "JSON_parse env_no_text (sanitize env_no_text
      (or_default (response_text \<lparr>response_text = None, groundingChunks = None\<rparr>) ''{}'')) =
      Inr \<lparr>safety = None, summary = None, category = None, productName = None,
           productDetails = None, sources = None\<rparr>"
    unfolding s by (simp add: env_no_text_def env_offline_def)
  have "fst (analyze_try env_no_text ''012345678905'' (Some ''UPC_A'') fresh_service) =
      Inr \<lparr>safety = None, summary = None, category = None, productName = None,
           productDetails = None, sources = Some []\<rparr>"
    using analyze_try_parsed [OF k getAI_no_text g p] by (simp add: extract_sources_def)
  then have "fst (analyzeQRContent env_no_text ''012345678905'' (Some ''UPC_A'') fresh_service) =
      Inr \<lparr>safety = None, summary = None, category = None, productName = None,
           productDetails = None, sources = Some []\<rparr>"
    by (cases "analyze_try env_no_text ''012345678905'' (Some ''UPC_A'') fresh_service")
       (simp add: analyzeQRContent_def)
  then show ?thesis by (simp add: is_AnalysisResult_def)
qed

section \<open>Enrichment calls\<close>

lemma pending_show_result:
  "pending (show_result sys a' pos) =
     pending sys @ snd (ResultDrawer_effect (scannedResult a') (drawer sys))"
  by (simp add: show_result_def split: prod.splits)


lemma shown_show_result [simp]: "shown (show_result sys a' pos) = pos"
  by (simp add: show_result_def split: prod.splits)

lemma effect_calls:
  "snd (ResultDrawer_effect res d) =
     (case res of
        None \<Rightarrow> []
      | Some r \<Rightarrow>
          if analysis r = None
          then [\<lparr>call_content = data r, call_format = format r, call_origin = r\<rparr>] else [])"
  by (simp add: ResultDrawer_effect_def split: option.splits)


lemma analysis_make_ScanResult [simp]: "analysis (make_ScanResult r now) = None"
  by (simp add: make_ScanResult_def Let_def)

lemma pending_fire_timer:
  "pending (fire_timer k now sys) =
     pending sys @
     (if timer_surfaces sys k
      then [\<lparr>call_content = data (make_ScanResult (timer_result (waiting sys ! k)) now),
             call_format = format (make_ScanResult (timer_result (waiting sys ! k)) now),
             call_origin = make_ScanResult (timer_result (waiting sys ! k)) now\<rparr>]
      else [])"
  by (simp add: fire_timer_def timer_surfaces_def Let_def pending_show_result effect_calls
      handleScan_def)

lemma pending_history_click:
  "pending (step sys (HistoryClick i)) =
     pending sys @
     (if view (app sys) = HistoryView \<and> i < length (history (app sys)) \<and> shown sys \<noteq> Some i
      then snd (ResultDrawer_effect (Some (history (app sys) ! i)) (drawer sys))
      else [])"
  by (simp add: pending_show_result history_onClick_def)

lemma drawer_inv_step: "drawer_inv sys \<Longrightarrow> drawer_inv (step sys e)"
proof (cases e)
  case (TimerFire k now)
  assume "drawer_inv sys"
  then show ?thesis
    unfolding TimerFire
    by (auto simp: drawer_inv_def fire_timer_def Let_def handleScan_def)
next
  case (Resolve k res)
  assume "drawer_inv sys"
  then show ?thesis
    unfolding Resolve
    by (auto simp: drawer_inv_def resolve_call_def Let_def handleAnalysisComplete_def
        split: option.splits)
next
  case (Decode cref vref ev)
  assume "drawer_inv sys"
  then show ?thesis
    unfolding Decode by (auto simp: drawer_inv_def split: option.splits)
next
  case RunEffects
  assume "drawer_inv sys"
  then show ?thesis
    unfolding RunEffects by (auto simp: drawer_inv_def split: option.splits)
next
  case CloseDrawer
  assume "drawer_inv sys"
  then show ?thesis
    unfolding CloseDrawer by (auto simp: drawer_inv_def closeDrawer_def)
next
  case (HistoryClick i)
  assume "drawer_inv sys"
  then show ?thesis
    unfolding HistoryClick by (auto simp: drawer_inv_def history_onClick_def)
next
  case HeaderClick
  assume "drawer_inv sys"
  then show ?thesis
    unfolding HeaderClick by (auto simp: drawer_inv_def header_onClick_def Let_def)
qed

lemma drawer_inv_run: "drawer_inv (run init_system es)"
proof (induction es rule: rev_induct)
  case Nil
  show ?case by (simp add: run_Nil init_system_def init_app_def drawer_inv_def)
next
  case (snoc e es)
  then show ?case by (simp add: run_snoc drawer_inv_step)
qed

lemma closed_nothing_shown:
  "\<not> isDrawerOpen (app (run init_system es)) \<Longrightarrow> shown (run init_system es) = None"
  using drawer_inv_run [of es] by (simp add: drawer_inv_def)

text \<open>
  The first scan, the drawer closed while the enrichment is pending, and the history
  view opened.
\<close>

lemma run_history_pending:
  "run init_system [Decode None None (Some code_a), TimerFire 0 1, CloseDrawer, HeaderClick] =
     \<lparr>app = \<lparr>scannedResult = None, isDrawerOpen = False, history = [scan_a],
              view = HistoryView\<rparr>,
      drawer = \<lparr>drawer_analysis = None, loading = True\<rparr>,
      pending = [\<lparr>call_content = ''https://example.com'', call_format = ''QR_CODE'',
                  call_origin = scan_a\<rparr>],
      shown = None,
      scanners = [\<lparr>isScanningRef = True, onScanRef = False\<rparr>],
      waiting = []\<rparr>"
proof -
  have split: "run init_system
      [Decode None None (Some code_a), TimerFire 0 1, CloseDrawer, HeaderClick] =
     run (run init_system [Decode None None (Some code_a), TimerFire 0 1])
       [CloseDrawer, HeaderClick]"
    using run_append [of init_system "[Decode None None (Some code_a), TimerFire 0 1]"
        "[CloseDrawer, HeaderClick]"]
    by simp
  show ?thesis
    unfolding split run_first_scan by (simp add: run_def system_defs)
qed



text \<open>
  C2, as stated, fails: after a scan, closing the drawer and opening the same entry from
  the history view, two calls for timestamp 1 are pending.
\<close>

theorem second_call_while_pending_counterexample:
  "\<not> calls_for 1 (pending (run init_system
       [Decode None None (Some code_a), TimerFire 0 1, CloseDrawer, HeaderClick,
        HistoryClick 0])) \<le> 1"
proof -
  have "run init_system
      [Decode None None (Some code_a), TimerFire 0 1, CloseDrawer, HeaderClick, HistoryClick 0] =
      step (run init_system
        [Decode None None (Some code_a), TimerFire 0 1, CloseDrawer, HeaderClick])
        (HistoryClick 0)"
    using run_snoc [of init_system
        "[Decode None None (Some code_a), TimerFire 0 1, CloseDrawer, HeaderClick]"
        "HistoryClick 0"]
    by simp
  then show ?thesis
    unfolding run_history_pending
    by (simp add: calls_for_def system_defs scan_a_simps)
qed

text \<open>
  C2, amended. A timer that fires and a click on a history entry each start at most one
  enrichment call, added after the calls already pending. Pending calls are not
  consulted: in a state reached from the initial one with the drawer closed, opening
  from the history view an entry without analysis adds one call for its timestamp to
  those pending for that timestamp, however many there are.
\<close>

theorem enrichment_calls_without_pending_check:
  "take (length (pending sys)) (pending (step sys (TimerFire k now))) = pending sys \<and>
   length (pending (step sys (TimerFire k now))) \<le> Suc (length (pending sys)) \<and>
   take (length (pending sys)) (pending (step sys (HistoryClick i))) = pending sys \<and>
   length (pending (step sys (HistoryClick i))) \<le> Suc (length (pending sys)) \<and>
   (\<not> isDrawerOpen (app (run init_system es)) \<and> view (app (run init_system es)) = HistoryView \<and>
    i < length (history (app (run init_system es))) \<and>
    analysis (history (app (run init_system es)) ! i) = None \<longrightarrow>
      calls_for (timestamp (history (app (run init_system es)) ! i))
        (pending (step (run init_system es) (HistoryClick i))) =
      Suc (calls_for (timestamp (history (app (run init_system es)) ! i))
        (pending (run init_system es))))"
proof -
  have 1: "take (length (pending sys)) (pending (step sys (TimerFire k now))) = pending sys"
    by (simp add: pending_fire_timer)
  have 2: "length (pending (step sys (TimerFire k now))) \<le> Suc (length (pending sys))"
    by (simp add: pending_fire_timer)
  have 3: "take (length (pending sys)) (pending (step sys (HistoryClick i))) = pending sys"
    unfolding pending_history_click by simp
  have 4: "length (pending (step sys (HistoryClick i))) \<le> Suc (length (pending sys))"
    unfolding pending_history_click by (simp add: effect_calls)
  have 5: "\<not> isDrawerOpen (app (run init_system es)) \<and> view (app (run init_system es)) = HistoryView \<and>
    i < length (history (app (run init_system es))) \<and>
    analysis (history (app (run init_system es)) ! i) = None \<longrightarrow>
      calls_for (timestamp (history (app (run init_system es)) ! i))
        (pending (step (run init_system es) (HistoryClick i))) =
      Suc (calls_for (timestamp (history (app (run init_system es)) ! i))
        (pending (run init_system es)))"
    using closed_nothing_shown [of es]
    unfolding pending_history_click by (simp add: effect_calls calls_for_def)
  from 1 2 3 4 5 show ?thesis by blast
qed

theorem enrichment_calls_without_pending_check_witness:
  "\<not> isDrawerOpen (app (run init_system
       [Decode None None (Some code_a), TimerFire 0 1, CloseDrawer, HeaderClick])) \<and>
   view (app (run init_system
       [Decode None None (Some code_a), TimerFire 0 1, CloseDrawer, HeaderClick])) = HistoryView \<and>
   analysis (history (app (run init_system
       [Decode None None (Some code_a), TimerFire 0 1, CloseDrawer, HeaderClick])) ! 0) = None \<and>
   timestamp (history (app (run init_system
       [Decode None None (Some code_a), TimerFire 0 1, CloseDrawer, HeaderClick])) ! 0) = 1 \<and>
   calls_for 1 (pending (run init_system
       [Decode None None (Some code_a), TimerFire 0 1, CloseDrawer, HeaderClick])) = 1 \<and>
   calls_for 1 (pending (step (run init_system
       [Decode None None (Some code_a), TimerFire 0 1, CloseDrawer, HeaderClick])
       (HistoryClick 0))) = 2"
  using enrichment_calls_without_pending_check
      [of init_system 0 1 0
          "[Decode None None (Some code_a), TimerFire 0 1, CloseDrawer, HeaderClick]"]
  unfolding run_history_pending
  by (simp add: calls_for_def scan_a_simps)




section \<open>Scans while the drawer is open\<close>

text \<open>
  What the code does when the refs of the mounted scanner are up to date and the drawer
  is open: the decode callback starts no timer, and a timer of that scanner, when it
  fires, changes neither the application state nor the pending calls.
\<close>

lemma fresh_refs_drop:
  "mounted sys = Some k \<and> scanners sys ! k = refs_of_props (app sys) \<and> isDrawerOpen (app sys)
   \<longrightarrow>
     step sys (Decode cref vref ev) = sys \<and>
     (j < length (waiting sys) \<and> timer_scanner (waiting sys ! j) = k \<longrightarrow>
        app (step sys (TimerFire j now)) = app sys \<and>
        pending (step sys (TimerFire j now)) = pending sys)"
proof
  assume a: "mounted sys = Some k \<and> scanners sys ! k = refs_of_props (app sys) \<and>
    isDrawerOpen (app sys)"
  then have r: "\<not> isScanningRef (scanners sys ! k)" "onScanRef (scanners sys ! k)"
    by (simp_all add: refs_of_props_def isScanning_def)
  have 1: "step sys (Decode cref vref ev) = sys"
    using a r by (simp add: handleDecode_def split: option.splits)
  have 2: "j < length (waiting sys) \<and> timer_scanner (waiting sys ! j) = k \<longrightarrow>
        app (step sys (TimerFire j now)) = app sys \<and>
        pending (step sys (TimerFire j now)) = pending sys"
    using r by (simp add: fire_timer_def Let_def handleScan_def)
  from 1 2 show "step sys (Decode cref vref ev) = sys \<and>
     (j < length (waiting sys) \<and> timer_scanner (waiting sys ! j) = k \<longrightarrow>
        app (step sys (TimerFire j now)) = app sys \<and>
        pending (step sys (TimerFire j now)) = pending sys)"
    by blast
qed

text \<open>
  A scan is surfaced and enriched, and its drawer closed. A product code is decoded, and
  before its timer fires the user switches to the history view, which unmounts the
  scanner, and opens the first entry.
\<close>

lemma run_stale_timer:
  "run init_system
     [Decode None None (Some code_a), TimerFire 0 1, Resolve 0 analysis_ok, RunEffects,
      CloseDrawer, RunEffects, Decode None None (Some code_c), HeaderClick, HistoryClick 0] =
     \<lparr>app = \<lparr>scannedResult = Some (scan_a\<lparr>analysis := Some analysis_ok\<rparr>),
              isDrawerOpen = True, history = [scan_a\<lparr>analysis := Some analysis_ok\<rparr>],
              view = HistoryView\<rparr>,
      drawer = \<lparr>drawer_analysis = Some analysis_ok, loading = False\<rparr>,
      pending = [],
      shown = Some 0,
      scanners = [\<lparr>isScanningRef = True, onScanRef = False\<rparr>],
      waiting = [\<lparr>timer_result = code_c, timer_scanner = 0\<rparr>]\<rparr>"
proof -
  have split: "run init_system
     [Decode None None (Some code_a), TimerFire 0 1, Resolve 0 analysis_ok, RunEffects,
      CloseDrawer, RunEffects, Decode None None (Some code_c), HeaderClick, HistoryClick 0] =
     run (run init_system [Decode None None (Some code_a), TimerFire 0 1])
       [Resolve 0 analysis_ok, RunEffects, CloseDrawer, RunEffects,
        Decode None None (Some code_c), HeaderClick, HistoryClick 0]"
    using run_append [of init_system "[Decode None None (Some code_a), TimerFire 0 1]"
        "[Resolve 0 analysis_ok, RunEffects, CloseDrawer, RunEffects,
          Decode None None (Some code_c), HeaderClick, HistoryClick 0]"]
    by simp
  show ?thesis
    unfolding split run_first_scan by (simp add: run_def system_defs scan_a_simps)
qed

text \<open>
  C7 fails in the code. In the state reached by the run above the drawer is open on the
  first entry and the timer of the product code is still waiting. The closure that the
  timer calls was made while the drawer was closed, and the scanner, unmounted since,
  has not replaced it. When the timer fires, the scan is surfaced: it becomes the active
  result, enters the history and starts an enrichment call.
\<close>

theorem stale_timer_surfaces_while_open:
  "isDrawerOpen (app (run init_system
     [Decode None None (Some code_a), TimerFire 0 1, Resolve 0 analysis_ok, RunEffects,
      CloseDrawer, RunEffects, Decode None None (Some code_c), HeaderClick, HistoryClick 0])) \<and>
   scannedResult (app (run init_system
     [Decode None None (Some code_a), TimerFire 0 1, Resolve 0 analysis_ok, RunEffects,
      CloseDrawer, RunEffects, Decode None None (Some code_c), HeaderClick, HistoryClick 0])) =
     Some (scan_a\<lparr>analysis := Some analysis_ok\<rparr>) \<and>
   history (app (run init_system
     [Decode None None (Some code_a), TimerFire 0 1, Resolve 0 analysis_ok, RunEffects,
      CloseDrawer, RunEffects, Decode None None (Some code_c), HeaderClick, HistoryClick 0])) =
     [scan_a\<lparr>analysis := Some analysis_ok\<rparr>] \<and>
   scannedResult (app (step (run init_system
     [Decode None None (Some code_a), TimerFire 0 1, Resolve 0 analysis_ok, RunEffects,
      CloseDrawer, RunEffects, Decode None None (Some code_c), HeaderClick, HistoryClick 0])
     (TimerFire 0 3))) = Some scan_c \<and>
   history (app (step (run init_system
     [Decode None None (Some code_a), TimerFire 0 1, Resolve 0 analysis_ok, RunEffects,
      CloseDrawer, RunEffects, Decode None None (Some code_c), HeaderClick, HistoryClick 0])
     (TimerFire 0 3))) = [scan_c, scan_a\<lparr>analysis := Some analysis_ok\<rparr>] \<and>
   pending (step (run init_system
     [Decode None None (Some code_a), TimerFire 0 1, Resolve 0 analysis_ok, RunEffects,
      CloseDrawer, RunEffects, Decode None None (Some code_c), HeaderClick, HistoryClick 0])
     (TimerFire 0 3)) =
     [\<lparr>call_content = ''012345678905'', call_format = ''UPC_A'', call_origin = scan_c\<rparr>]"
  unfolding run_stale_timer
  by (simp add: system_defs make_code_c) (simp add: scan_c_simps)

section \<open>Overlay\<close>

lemma lineTo_loop_drop:
  "lineTo_loop ps i = map (\<lambda>p. LineTo (pt_x p) (pt_y p)) (drop i ps)"
proof (induction ps i rule: lineTo_loop.induct)
  case (1 ps i)
  show ?case
  proof (cases "i < length ps")
    case True
    then have "drop i ps = ps ! i # drop (Suc i) ps"
      by (simp add: Cons_nth_drop_Suc)
    with True "1.IH" show ?thesis
      using lineTo_loop.simps [of ps i] by simp
  next
    case False
    then show ?thesis using lineTo_loop.simps [of ps i] by simp
  qed
qed

lemma is2DFormat_iff:
  "is2DFormat fmt = (fmt \<in> {QR_CODE, AZTEC, DATA_MATRIX, MAXICODE, PDF_417})"
  by (simp add: is2DFormat_def formats_2D_def)

lemma path_2D_Cons:
  "path_2D (p # qs) =
     [SetStrokeStyle ''#10b981'', SetFillStyle ''rgba(16, 185, 129, 0.2)'',
      MoveTo (pt_x p) (pt_y p)] @
     map (\<lambda>q. LineTo (pt_x q) (pt_y q)) qs @ [ClosePath]"
  by (simp add: path_2D_def lineTo_loop_drop)

lemma path_2D_Nil:
  "path_2D [] = [SetStrokeStyle ''#10b981'', SetFillStyle ''rgba(16, 185, 129, 0.2)'']"
  by (simp add: path_2D_def)

lemma path_1D_long:
  "2 \<le> length ps \<Longrightarrow>
   path_1D ps =
     [SetStrokeStyle ''#3b82f6'', SetFillStyle ''rgba(59, 130, 246, 0.2)'',
      MoveTo (pt_x (hd ps)) (pt_y (hd ps)), LineTo (pt_x (last ps)) (pt_y (last ps)),
      SetShadowColor ''#3b82f6'', SetShadowBlur 10]"
proof -
  assume len: "2 \<le> length ps"
  then have ne: "ps \<noteq> []" by auto
  have "ps ! 0 = hd ps" using ne by (simp add: hd_conv_nth)
  moreover have "ps ! (length ps - 1) = last ps" using ne by (simp add: last_conv_nth)
  ultimately show ?thesis using len by (simp add: path_1D_def)
qed

lemma path_1D_short:
  "length ps < 2 \<Longrightarrow>
   path_1D ps = [SetStrokeStyle ''#3b82f6'', SetFillStyle ''rgba(59, 130, 246, 0.2)'']"
  by (simp add: path_1D_def)

text \<open>
  C9. With a canvas, a video element and a 2D context at hand, the renderer draws as
  follows. The area class is QR, Aztec, DataMatrix, MaxiCode and PDF417. For a format of
  that class the path starts at the first reported point, goes through the other points
  in the order reported and is closed; it is stroked and filled. With no point reported
  the path is empty (the polygon has no vertex) and is stroked and filled all the same.
  For any other format with two points or more the path is one segment from the first
  reported point to the last, with the glow set, and it is stroked and not filled. With
  fewer than two points there is no segment: the path is empty.
\<close>

theorem overlay_polygon_or_segment:
  "has_context c \<longrightarrow>
   is2DFormat fmt = (fmt \<in> {QR_CODE, AZTEC, DATA_MATRIX, MAXICODE, PDF_417}) \<and>
   (fmt \<in> {QR_CODE, AZTEC, DATA_MATRIX, MAXICODE, PDF_417} \<longrightarrow>
      drawResultOverlay (Some c) (Some v) (p # qs) fmt =
        Some (match_size c v,
          [ClearRect 0 0 (width (match_size c v)) (height (match_size c v)), BeginPath,
           SetLineWidth 4, SetStrokeStyle ''#10b981'', SetFillStyle ''rgba(16, 185, 129, 0.2)'',
           MoveTo (pt_x p) (pt_y p)] @
          map (\<lambda>q. LineTo (pt_x q) (pt_y q)) qs @
          [ClosePath, Stroke, Fill, SetShadowBlur 0]) \<and>
      drawResultOverlay (Some c) (Some v) [] fmt =
        Some (match_size c v,
          [ClearRect 0 0 (width (match_size c v)) (height (match_size c v)), BeginPath,
           SetLineWidth 4, SetStrokeStyle ''#10b981'', SetFillStyle ''rgba(16, 185, 129, 0.2)'',
           Stroke, Fill, SetShadowBlur 0])) \<and>
   (fmt \<notin> {QR_CODE, AZTEC, DATA_MATRIX, MAXICODE, PDF_417} \<and> 2 \<le> length ps \<longrightarrow>
      drawResultOverlay (Some c) (Some v) ps fmt =
        Some (match_size c v,
          [ClearRect 0 0 (width (match_size c v)) (height (match_size c v)), BeginPath,
           SetLineWidth 4, SetStrokeStyle ''#3b82f6'', SetFillStyle ''rgba(59, 130, 246, 0.2)'',
           MoveTo (pt_x (hd ps)) (pt_y (hd ps)), LineTo (pt_x (last ps)) (pt_y (last ps)),
           SetShadowColor ''#3b82f6'', SetShadowBlur 10, Stroke, SetShadowBlur 0])) \<and>
   (fmt \<notin> {QR_CODE, AZTEC, DATA_MATRIX, MAXICODE, PDF_417} \<and> length ps < 2 \<longrightarrow>
      drawResultOverlay (Some c) (Some v) ps fmt =
        Some (match_size c v,
          [ClearRect 0 0 (width (match_size c v)) (height (match_size c v)), BeginPath,
           SetLineWidth 4, SetStrokeStyle ''#3b82f6'', SetFillStyle ''rgba(59, 130, 246, 0.2)'',
           Stroke, SetShadowBlur 0]))"
  (is "_ \<longrightarrow> ?concl")
proof
  assume ctx: "has_context c"
  have a: "is2DFormat fmt = (fmt \<in> {QR_CODE, AZTEC, DATA_MATRIX, MAXICODE, PDF_417})"
    by (rule is2DFormat_iff)
  have b: "fmt \<in> {QR_CODE, AZTEC, DATA_MATRIX, MAXICODE, PDF_417} \<longrightarrow>
      drawResultOverlay (Some c) (Some v) (p # qs) fmt =
        Some (match_size c v,
          [ClearRect 0 0 (width (match_size c v)) (height (match_size c v)), BeginPath,
           SetLineWidth 4, SetStrokeStyle ''#10b981'', SetFillStyle ''rgba(16, 185, 129, 0.2)'',
           MoveTo (pt_x p) (pt_y p)] @
          map (\<lambda>q. LineTo (pt_x q) (pt_y q)) qs @
          [ClosePath, Stroke, Fill, SetShadowBlur 0]) \<and>
      drawResultOverlay (Some c) (Some v) [] fmt =
        Some (match_size c v,
          [ClearRect 0 0 (width (match_size c v)) (height (match_size c v)), BeginPath,
           SetLineWidth 4, SetStrokeStyle ''#10b981'', SetFillStyle ''rgba(16, 185, 129, 0.2)'',
           Stroke, Fill, SetShadowBlur 0])"
    using ctx unfolding drawResultOverlay_def a [symmetric] Let_def path_2D_Cons path_2D_Nil
    by simp
  have c: "fmt \<notin> {QR_CODE, AZTEC, DATA_MATRIX, MAXICODE, PDF_417} \<and> 2 \<le> length ps \<longrightarrow>
      drawResultOverlay (Some c) (Some v) ps fmt =
        Some (match_size c v,
          [ClearRect 0 0 (width (match_size c v)) (height (match_size c v)), BeginPath,
           SetLineWidth 4, SetStrokeStyle ''#3b82f6'', SetFillStyle ''rgba(59, 130, 246, 0.2)'',
           MoveTo (pt_x (hd ps)) (pt_y (hd ps)), LineTo (pt_x (last ps)) (pt_y (last ps)),
           SetShadowColor ''#3b82f6'', SetShadowBlur 10, Stroke, SetShadowBlur 0])"
    using ctx unfolding drawResultOverlay_def a [symmetric] Let_def
    by (simp add: path_1D_long)
  have d: "fmt \<notin> {QR_CODE, AZTEC, DATA_MATRIX, MAXICODE, PDF_417} \<and> length ps < 2 \<longrightarrow>
      drawResultOverlay (Some c) (Some v) ps fmt =
        Some (match_size c v,
          [ClearRect 0 0 (width (match_size c v)) (height (match_size c v)), BeginPath,
           SetLineWidth 4, SetStrokeStyle ''#3b82f6'', SetFillStyle ''rgba(59, 130, 246, 0.2)'',
           Stroke, SetShadowBlur 0])"
    using ctx unfolding drawResultOverlay_def a [symmetric] Let_def
    by (simp add: path_1D_short)
  from a b c d show ?concl
    by blast
qed

theorem overlay_polygon_or_segment_witness:
  "has_context \<lparr>width = 300, height = 150, has_context = True\<rparr> \<and>
   drawResultOverlay (Some \<lparr>width = 300, height = 150, has_context = True\<rparr>)
     (Some \<lparr>videoWidth = 640, videoHeight = 480\<rparr>)
     [\<lparr>pt_x = 10, pt_y = 10\<rparr>, \<lparr>pt_x = 90, pt_y = 10\<rparr>, \<lparr>pt_x = 90, pt_y = 90\<rparr>,
      \<lparr>pt_x = 10, pt_y = 90\<rparr>] QR_CODE =
     Some (\<lparr>width = 640, height = 480, has_context = True\<rparr>,
       [ClearRect 0 0 640 480, BeginPath, SetLineWidth 4, SetStrokeStyle ''#10b981'',
        SetFillStyle ''rgba(16, 185, 129, 0.2)'', MoveTo 10 10, LineTo 90 10, LineTo 90 90,
        LineTo 10 90, ClosePath, Stroke, Fill, SetShadowBlur 0]) \<and>
   drawResultOverlay (Some \<lparr>width = 300, height = 150, has_context = True\<rparr>)
     (Some \<lparr>videoWidth = 640, videoHeight = 480\<rparr>)
     [\<lparr>pt_x = 20, pt_y = 50\<rparr>, \<lparr>pt_x = 60, pt_y = 50\<rparr>, \<lparr>pt_x = 200, pt_y = 52\<rparr>] EAN_13 =
     Some (\<lparr>width = 640, height = 480, has_context = True\<rparr>,
       [ClearRect 0 0 640 480, BeginPath, SetLineWidth 4, SetStrokeStyle ''#3b82f6'',
        SetFillStyle ''rgba(59, 130, 246, 0.2)'', MoveTo 20 50, LineTo 200 52,
        SetShadowColor ''#3b82f6'', SetShadowBlur 10, Stroke, SetShadowBlur 0]) \<and>
   drawResultOverlay (Some \<lparr>width = 300, height = 150, has_context = True\<rparr>)
     (Some \<lparr>videoWidth = 640, videoHeight = 480\<rparr>) [\<lparr>pt_x = 20, pt_y = 50\<rparr>] EAN_13 =
     Some (\<lparr>width = 640, height = 480, has_context = True\<rparr>,
       [ClearRect 0 0 640 480, BeginPath, SetLineWidth 4, SetStrokeStyle ''#3b82f6'',
        SetFillStyle ''rgba(59, 130, 246, 0.2)'', Stroke, SetShadowBlur 0])"
  using overlay_polygon_or_segment
      [where c = "\<lparr>width = 300, height = 150, has_context = True\<rparr>"
        and v = "\<lparr>videoWidth = 640, videoHeight = 480\<rparr>" and fmt = QR_CODE
        and p = "\<lparr>pt_x = 10, pt_y = 10\<rparr>"
        and qs = "[\<lparr>pt_x = 90, pt_y = 10\<rparr>, \<lparr>pt_x = 90, pt_y = 90\<rparr>, \<lparr>pt_x = 10, pt_y = 90\<rparr>]"]
    overlay_polygon_or_segment
      [where c = "\<lparr>width = 300, height = 150, has_context = True\<rparr>"
        and v = "\<lparr>videoWidth = 640, videoHeight = 480\<rparr>" and fmt = EAN_13
        and ps = "[\<lparr>pt_x = 20, pt_y = 50\<rparr>, \<lparr>pt_x = 60, pt_y = 50\<rparr>, \<lparr>pt_x = 200, pt_y = 52\<rparr>]"]
    overlay_polygon_or_segment
      [where c = "\<lparr>width = 300, height = 150, has_context = True\<rparr>"
        and v = "\<lparr>videoWidth = 640, videoHeight = 480\<rparr>" and fmt = EAN_13
        and ps = "[\<lparr>pt_x = 20, pt_y = 50\<rparr>]"]
  by (simp add: match_size_def)

end
